theory Spec2Isabelle
  imports Main "HOL-Library.Word"
begin

unbundle bit_operations_syntax

section \<open>RGB888 to RGB565 quantization (tools/generate\_emoji.py)\<close>

text \<open>
  \<^verbatim>\<open>def rgb_to_rgb565(r, g, b):
      return ((r & 0xF8) << 8) | ((g & 0xFC) << 3) | (b >> 3)\<close>
  Python integers are unbounded, so the channels and the result are \<^typ>\<open>int\<close>.
\<close>

definition rgb_to_rgb565 :: "int \<Rightarrow> int \<Rightarrow> int \<Rightarrow> int" where
  "rgb_to_rgb565 r g b =
     push_bit 8 (r AND 0xF8) OR push_bit 3 (g AND 0xFC) OR drop_bit 3 b"

section \<open>Formatting helpers (Python format specifications used by the generator)\<close>

text \<open>
  The generator formats integers with \<^verbatim>\<open>{v:04X}\<close>, \<^verbatim>\<open>{codepoint:05X}\<close>,
  \<^verbatim>\<open>{codepoint:x}\<close> and plain \<^verbatim>\<open>{n}\<close>. The digit strings of a natural number are
  built most significant digit first; a negative value gets a leading minus sign that
  counts towards the field width, as in Python.
\<close>

definition hex_digit :: "bool \<Rightarrow> nat \<Rightarrow> char" where
  "hex_digit upper d = (if upper then ''0123456789ABCDEF'' else ''0123456789abcdef'') ! d"

fun hex_digits :: "bool \<Rightarrow> nat \<Rightarrow> string" where
  "hex_digits upper n =
     (if n < 16 then [hex_digit upper n]
      else hex_digits upper (n div 16) @ [hex_digit upper (n mod 16)])"

declare hex_digits.simps [simp del]

fun dec_digits :: "nat \<Rightarrow> string" where
  "dec_digits n =
     (if n < 10 then [''0123456789'' ! n]
      else dec_digits (n div 10) @ [''0123456789'' ! (n mod 10)])"

declare dec_digits.simps [simp del]

definition zero_pad :: "nat \<Rightarrow> string \<Rightarrow> string" where
  "zero_pad width s = replicate (width - length s) (CHR ''0'') @ s"

definition format_x :: "int \<Rightarrow> string" where
  "format_x v = (if v < 0 then ''-'' @ hex_digits False (nat (- v)) else hex_digits False (nat v))"

definition format_0X :: "nat \<Rightarrow> int \<Rightarrow> string" where
  "format_0X width v =
     (if v < 0 then ''-'' @ zero_pad (width - 1) (hex_digits True (nat (- v)))
      else zero_pad width (hex_digits True (nat v)))"

definition format_d :: "int \<Rightarrow> string" where
  "format_d v = (if v < 0 then ''-'' @ dec_digits (nat (- v)) else dec_digits (nat v))"

text \<open>
  \<^verbatim>\<open>str.upper()\<close> on the ASCII letters; every other byte is left as it is (the
  configured names are lower-case ASCII letters, digits and underscores).
\<close>

definition upper_char :: "char \<Rightarrow> char" where
  "upper_char c =
     (case map_of (zip ''abcdefghijklmnopqrstuvwxyz'' ''ABCDEFGHIJKLMNOPQRSTUVWXYZ'') c of
        Some u \<Rightarrow> u
      | None \<Rightarrow> c)"

definition upper :: "string \<Rightarrow> string" where
  "upper s = map upper_char s"

text \<open>\<^verbatim>\<open>sep.join(parts)\<close>\<close>

fun join :: "string \<Rightarrow> string list \<Rightarrow> string" where
  "join sep [] = []"
| "join sep [p] = p"
| "join sep (p # q # ps) = p @ sep @ join sep (q # ps)"

section \<open>The fetcher and its cache\<close>

text \<open>
  The cache directory holds one file per fetched code point, named by
  \<^verbatim>\<open>codepoint_to_twemoji_filename\<close>; it is modelled as a map from file names to file
  contents. The remote source is a parameter: given what the run has done so far and a
  URL, a request has one of three outcomes. It delivers a body; or it fails with the
  \<^verbatim>\<open>URLError\<close> (or its subclass \<^verbatim>\<open>HTTPError\<close>) that \<^verbatim>\<open>download_twemoji\<close> catches:
  an unreachable host, a refused or timed-out connection, a non-success status; or it
  raises an exception that the \<^verbatim>\<open>except\<close> clause does not name: a timeout while the
  response is read (\<^verbatim>\<open>TimeoutError\<close>), a truncated body
  (\<^verbatim>\<open>http.client.IncompleteRead\<close>) or a connection closed before the status line
  (\<^verbatim>\<open>http.client.RemoteDisconnected\<close>). Such an exception leaves
  \<^verbatim>\<open>download_twemoji\<close> and, uncaught in \<^verbatim>\<open>main\<close> as well, ends the run.
  Every network request and every \<^verbatim>\<open>time.sleep(0.05)\<close> of a run is recorded, in order,
  in the run's trace.

  The accesses to the cache directory (\<^verbatim>\<open>ensure_cache_dir\<close>, reading and writing a
  file) are taken to succeed: the cache directory exists and its files can be read and
  written.
\<close>

type_synonym bytes = "8 word list"

datatype event = Fetch string | Sleep

datatype exn = TimeoutError | IncompleteRead | RemoteDisconnected

datatype response = Body bytes | URLError | Raises exn

type_synonym network = "event list \<Rightarrow> string \<Rightarrow> response"

record state =
  cache :: "string \<rightharpoonup> bytes"
  trace :: "event list"
  out :: "string list"
  all_entries :: "(int \<times> string \<times> string \<times> string) list"
  success_count :: int
  fail_count :: int

definition TWEMOJI_BASE :: string where
  "TWEMOJI_BASE = ''https://raw.githubusercontent.com/twitter/twemoji/master/assets/72x72''"

text \<open>
  \<^verbatim>\<open>def codepoint_to_twemoji_filename(codepoint):
      return f"{codepoint:x}.png"\<close>
\<close>

definition codepoint_to_twemoji_filename :: "int \<Rightarrow> string" where
  "codepoint_to_twemoji_filename codepoint = format_x codepoint @ ''.png''"

text \<open>
  The two cache accesses of \<^verbatim>\<open>download_twemoji\<close>: reading
  (\<^verbatim>\<open>if os.path.exists(cache_path): with open(cache_path, 'rb') as f: return f.read()\<close>)
  and writing (\<^verbatim>\<open>with open(cache_path, 'wb') as f: f.write(data)\<close>).
\<close>

definition cache_get :: "(string \<rightharpoonup> bytes) \<Rightarrow> int \<Rightarrow> bytes option" where
  "cache_get c codepoint = c (codepoint_to_twemoji_filename codepoint)"

definition cache_put :: "(string \<rightharpoonup> bytes) \<Rightarrow> int \<Rightarrow> bytes \<Rightarrow> (string \<rightharpoonup> bytes)" where
  "cache_put c codepoint data = c(codepoint_to_twemoji_filename codepoint \<mapsto> data)"

text \<open>
  \<^verbatim>\<open>def download_twemoji(codepoint):
      filename = codepoint_to_twemoji_filename(codepoint)
      cache_path = os.path.join(CACHE_DIR, filename)
      if os.path.exists(cache_path):
          with open(cache_path, 'rb') as f:
              return f.read()
      url = f"{TWEMOJI_BASE}/{filename}"
      try:
          ...
          with urllib.request.urlopen(req, timeout=10, context=ctx) as response:
              data = response.read()
          ensure_cache_dir()
          with open(cache_path, 'wb') as f:
              f.write(data)
          return data
      except (urllib.error.URLError, urllib.error.HTTPError) as e:
          print(..., file=sys.stderr)
          return None\<close>
  A call that returns gives the bytes or \<open>None\<close>, together with the state after the
  call (\<open>Inr\<close>); a call that an uncaught exception leaves gives that exception
  (\<open>Inl\<close>).
\<close>

definition download_twemoji :: "network \<Rightarrow> int \<Rightarrow> state \<Rightarrow> exn + bytes option \<times> state" where
  "download_twemoji net codepoint s =
     (case cache_get (cache s) codepoint of
        Some cached \<Rightarrow> Inr (Some cached, s)
      | None \<Rightarrow>
          (let url = TWEMOJI_BASE @ ''/'' @ codepoint_to_twemoji_filename codepoint;
               s1 = s\<lparr>trace := trace s @ [Fetch url]\<rparr>
           in case net (trace s) url of
                Body data \<Rightarrow> Inr (Some data, s1\<lparr>cache := cache_put (cache s1) codepoint data\<rparr>)
              | URLError \<Rightarrow> Inr (None, s1)
              | Raises e \<Rightarrow> Inl e))"

section \<open>Rasterization and the placeholder\<close>

text \<open>
  The image library is outside the repository. Its part of
  \<^verbatim>\<open>process_twemoji_to_rgb565\<close>, from \<^verbatim>\<open>Image.open\<close> to
  \<^verbatim>\<open>list(background.getdata())\<close>, is the parameter \<open>raster\<close>: the pixels of the
  composited image, or \<open>None\<close> when any step raises (the function catches
  \<^verbatim>\<open>Exception\<close> and returns \<^verbatim>\<open>None\<close>).
\<close>

type_synonym pixel = "int \<times> int \<times> int"

type_synonym rasterizer = "bytes \<Rightarrow> int \<Rightarrow> pixel list option"

text \<open>
  \<^verbatim>\<open>pixels = list(background.getdata())
  rgb565_data = []
  for r, g, b in pixels:
      rgb565_data.append(rgb_to_rgb565(r, g, b))
  return rgb565_data\<close>
\<close>

definition process_twemoji_to_rgb565 :: "rasterizer \<Rightarrow> bytes \<Rightarrow> int \<Rightarrow> int list option" where
  "process_twemoji_to_rgb565 raster png_data sz =
     (case raster png_data sz of
        None \<Rightarrow> None
      | Some pixels \<Rightarrow> Some (map (\<lambda>(r, g, b). rgb_to_rgb565 r g b) pixels))"

text \<open>
  \<open>background\<close> is created by \<^verbatim>\<open>Image.new('RGB', (size, size), (0, 0, 0))\<close>: an image
  of \<open>size \<times> size\<close> pixels with three 8-bit channels. A rasterizer is well formed when
  every pixel list it returns has that shape. (The source's parameter \<^verbatim>\<open>size\<close> is
  written \<open>sz\<close>.)
\<close>

definition rgb_image :: "int \<Rightarrow> pixel list \<Rightarrow> bool" where
  "rgb_image sz pixels \<longleftrightarrow>
     int (length pixels) = sz * sz \<and>
     list_all (\<lambda>(r, g, b). 0 \<le> r \<and> r \<le> 255 \<and> 0 \<le> g \<and> g \<le> 255 \<and> 0 \<le> b \<and> b \<le> 255) pixels"

definition raster_ok :: "rasterizer \<Rightarrow> bool" where
  "raster_ok raster \<longleftrightarrow>
     (\<forall>png_data sz pixels. raster png_data sz = Some pixels \<longrightarrow> rgb_image sz pixels)"

text \<open>
  \<^verbatim>\<open>def generate_placeholder(size=12):
      data = []
      pattern = [ "000111111000", ... ]
      yellow = rgb_to_rgb565(255, 215, 0)
      black = rgb_to_rgb565(0, 0, 0)
      for row in pattern:
          for c in row:
              data.append(yellow if c == '1' else black)
      return data\<close>
\<close>

definition pattern :: "string list" where
  "pattern = [
    ''000111111000'',
    ''001111111100'',
    ''011100001110'',
    ''011100001110'',
    ''000000011110'',
    ''000000111100'',
    ''000001111000'',
    ''000001110000'',
    ''000001110000'',
    ''000000000000'',
    ''000001110000'',
    ''000001110000'']"

definition generate_placeholder :: "int \<Rightarrow> int list" where
  "generate_placeholder sz =
     (let yellow = rgb_to_rgb565 255 215 0;
          black = rgb_to_rgb565 0 0 0
      in concat (map (\<lambda>row. map (\<lambda>c. if c = CHR ''1'' then yellow else black) row) pattern))"

section \<open>The generator's main loop and the emitted text\<close>

text \<open>
  The configuration \<^verbatim>\<open>EMOJI_DATA\<close> is a dictionary from category names to lists of
  (code point, short name); its items are visited in declaration order.
  \<^verbatim>\<open>total = sum(len(v) for v in EMOJI_DATA.values())\<close>
\<close>

type_synonym config = "(string \<times> (int \<times> string) list) list"

definition total_count :: "config \<Rightarrow> int" where
  "total_count cfg = sum_list (map (\<lambda>v. int (length v)) (map snd cfg))"

text \<open>Python's truth value of \<^verbatim>\<open>None\<close>, of bytes and of a list: false when absent or empty.\<close>

definition truthy :: "'a list option \<Rightarrow> bool" where
  "truthy x = (case x of None \<Rightarrow> False | Some v \<Rightarrow> v \<noteq> [])"

text \<open>The lines printed to standard output before the loop.\<close>

definition header :: "config \<Rightarrow> string list" where
  \<open>header cfg = [
    ''/**'',
    '' * MeshBerry Emoji Bitmap Data (Auto-Generated from Twemoji)'',
    '' * '',
    '' * SPDX-License-Identifier: GPL-3.0-or-later'',
    '' * Copyright (C) 2026 NodakMesh (nodakmesh.org)'',
    '' * '',
    '' * Twemoji graphics licensed under CC-BY 4.0'',
    '' * https://github.com/twitter/twemoji'',
    '' * '',
    '' * Total: '' @ format_d (total_count cfg) @ '' emoji as 12x12 RGB565 bitmaps'',
    '' */'',
    '''',
    ''#ifndef MESHBERRY_EMOJI_DATA_H'',
    ''#define MESHBERRY_EMOJI_DATA_H'',
    '''',
    ''#include <Arduino.h>'',
    ''#include "Emoji.h"'',
    '''']\<close>

text \<open>
  \<^verbatim>\<open>print(f"static const uint16_t {var_name}[144] PROGMEM = {{")
  for i in range(0, 144, 12):
      row = data[i:i + 12]
      hex_row = ", ".join(f"0x{v:04X}" for v in row)
      comma = "," if i + 12 < 144 else ""
      print(f"    {hex_row}{comma}")
  print("};")
  print()\<close>
  A Python slice never raises: it is cut at the end of the list. \<^verbatim>\<open>range(0, 144, 12)\<close>
  is the multiples of 12 below 144.
\<close>

definition row_slice :: "int list \<Rightarrow> nat \<Rightarrow> int list" where
  "row_slice data i = take 12 (drop i data)"

definition row_line :: "nat \<Rightarrow> int list \<Rightarrow> string" where
  "row_line i row =
     (let hex_row = join '', '' (map (\<lambda>v. ''0x'' @ format_0X 4 v) row);
          comma = (if i + 12 < 144 then '','' else '''')
      in ''    '' @ hex_row @ comma)"

definition bitmap_lines :: "string \<Rightarrow> int list \<Rightarrow> string list" where
  "bitmap_lines var_name data =
     [''static const uint16_t '' @ var_name @ ''[144] PROGMEM = {'']
     @ map (\<lambda>i. row_line i (row_slice data i)) (map (\<lambda>k. 12 * k) [0..<12])
     @ [''};'', '''']"

text \<open>
  The choice of the bitmap from what \<^verbatim>\<open>download_twemoji\<close> returned:
  \<^verbatim>\<open>if png_data:
      data = process_twemoji_to_rgb565(png_data)
      if data:
          success_count += 1
      else:
          data = generate_placeholder()
          fail_count += 1
  else:
      data = generate_placeholder()
      fail_count += 1\<close>
\<close>

definition resolve_bitmap :: "rasterizer \<Rightarrow> bytes option \<Rightarrow> state \<Rightarrow> int list \<times> state" where
  "resolve_bitmap raster png_data s1 =
     (if truthy png_data then
        (let data = process_twemoji_to_rgb565 raster (the png_data) 12
         in if truthy data then (the data, s1\<lparr>success_count := success_count s1 + 1\<rparr>)
            else (generate_placeholder 12, s1\<lparr>fail_count := fail_count s1 + 1\<rparr>))
      else (generate_placeholder 12, s1\<lparr>fail_count := fail_count s1 + 1\<rparr>))"

text \<open>
  The body of the inner loop, for one \<^verbatim>\<open>(codepoint, shortcode)\<close> of a category:
  \<^verbatim>\<open>png_data = download_twemoji(codepoint)\<close>, then choose the bitmap, print it,
  append the table entry, sleep. An exception out of \<^verbatim>\<open>download_twemoji\<close> leaves the
  loop body at once.
\<close>

definition var_name_of :: "string \<Rightarrow> string" where
  "var_name_of shortcode = ''EMOJI_BMP_'' @ upper shortcode"

definition process_emoji ::
  "network \<Rightarrow> rasterizer \<Rightarrow> string \<Rightarrow> int \<times> string \<Rightarrow> state \<Rightarrow> exn + state" where
  "process_emoji net raster category e s =
     (let codepoint = fst e; shortcode = snd e;
          var_name = var_name_of shortcode
      in case download_twemoji net codepoint s of
           Inl x \<Rightarrow> Inl x
         | Inr (png_data, s1) \<Rightarrow>
             (let (data, s2) = resolve_bitmap raster png_data s1;
                  s3 = s2\<lparr>out := out s2 @ bitmap_lines var_name data\<rparr>;
                  s4 = s3\<lparr>all_entries :=
                          all_entries s3 @ [(codepoint, shortcode, var_name, category)]\<rparr>
              in Inr (s4\<lparr>trace := trace s4 @ [Sleep]\<rparr>)))"

text \<open>
  \<^verbatim>\<open>for codepoint, shortcode in emojis: ...\<close>: the loop body for each entry in turn, ended
  by the first exception.
\<close>

fun process_emojis ::
  "network \<Rightarrow> rasterizer \<Rightarrow> string \<Rightarrow> (int \<times> string) list \<Rightarrow> state \<Rightarrow> exn + state" where
  "process_emojis net raster category [] s = Inr s"
| "process_emojis net raster category (e # es) s =
     (case process_emoji net raster category e s of
        Inl x \<Rightarrow> Inl x
      | Inr s1 \<Rightarrow> process_emojis net raster category es s1)"

text \<open>
  The body of the outer loop, for one \<^verbatim>\<open>category, emojis\<close> item:
  \<^verbatim>\<open>print(f"// ============ {category} ({len(emojis)} emoji) ============")
  print()
  for codepoint, shortcode in emojis: ...\<close>
\<close>

definition process_category ::
  "network \<Rightarrow> rasterizer \<Rightarrow> string \<times> (int \<times> string) list \<Rightarrow> state \<Rightarrow> exn + state" where
  "process_category net raster item s =
     (let category = fst item; emojis = snd item;
          s1 = s\<lparr>out := out s @
                 [''// ============ '' @ category @ '' ('' @ format_d (int (length emojis))
                    @ '' emoji) ============'', '''']\<rparr>
      in process_emojis net raster category emojis s1)"

text \<open>
  The table printed after the loop:
  \<^verbatim>\<open>print("// ============ EMOJI TABLE ============")
  print()
  print(f"const int EMOJI_COUNT = {len(all_entries)};")
  print()
  print("const EmojiEntry EMOJI_TABLE[EMOJI_COUNT] PROGMEM = {")
  for codepoint, shortcode, var_name, category in all_entries:
      cat_enum = f"EmojiCategory::{category}"
      print(f'    {{ 0x{codepoint:05X}, "{shortcode}", {var_name}, {cat_enum} }},')
  print("};")
  print()
  print("#endif // MESHBERRY_EMOJI_DATA_H")\<close>
\<close>

definition table_row :: "int \<times> string \<times> string \<times> string \<Rightarrow> string" where
  \<open>table_row entry =
     (case entry of (codepoint, shortcode, var_name, category) \<Rightarrow>
        (let cat_enum = ''EmojiCategory::'' @ category
         in ''    { 0x'' @ format_0X 5 codepoint @ '', "'' @ shortcode @ ''", '' @ var_name
            @ '', '' @ cat_enum @ '' },''))\<close>

definition emoji_table :: "(int \<times> string \<times> string \<times> string) list \<Rightarrow> string list" where
  "emoji_table entries =
     [''// ============ EMOJI TABLE ============'',
      '''',
      ''const int EMOJI_COUNT = '' @ format_d (int (length entries)) @ '';'',
      '''',
      ''const EmojiEntry EMOJI_TABLE[EMOJI_COUNT] PROGMEM = {'']
     @ map table_row entries
     @ [''};'', '''', ''#endif // MESHBERRY_EMOJI_DATA_H'']"

text \<open>
  \<^verbatim>\<open>main\<close>, for a configuration, a remote source, a rasterizer and the cache directory's
  contents at the start. A run that completes gives its final state: \<open>out\<close> is the
  artifact (the lines written to standard output), \<open>cache\<close> the cache directory
  afterwards. A run ended by an exception gives that exception. The progress messages on
  standard error are not modelled.
\<close>

definition initial_state :: "config \<Rightarrow> (string \<rightharpoonup> bytes) \<Rightarrow> state" where
  "initial_state cfg cache0 =
     \<lparr>cache = cache0, trace = [], out = header cfg, all_entries = [],
      success_count = 0, fail_count = 0\<rparr>"

text \<open>\<^verbatim>\<open>for category, emojis in EMOJI_DATA.items(): ...\<close>\<close>

fun run_loop :: "network \<Rightarrow> rasterizer \<Rightarrow> config \<Rightarrow> state \<Rightarrow> exn + state" where
  "run_loop net raster [] s = Inr s"
| "run_loop net raster (item # cfg) s =
     (case process_category net raster item s of
        Inl x \<Rightarrow> Inl x
      | Inr s1 \<Rightarrow> run_loop net raster cfg s1)"

definition main ::
  "network \<Rightarrow> rasterizer \<Rightarrow> config \<Rightarrow> (string \<rightharpoonup> bytes) \<Rightarrow> exn + state" where
  "main net raster cfg cache0 =
     (case run_loop net raster cfg (initial_state cfg cache0) of
        Inl x \<Rightarrow> Inl x
      | Inr s \<Rightarrow> Inr (s\<lparr>out := out s @ emoji_table (all_entries s)\<rparr>))"

section \<open>The configured emoji set\<close>

text \<open>
  \<^verbatim>\<open>EMOJI_DATA\<close> of \<^verbatim>\<open>tools/generate_emoji.py\<close>: eleven categories, each a list of
  (code point, short name) in the order of the source. The category lists are named
  after their dictionary keys.
\<close>

definition EMOJI_DATA_FACES :: "(int \<times> string) list" where
  "EMOJI_DATA_FACES = [
    (0x1F600, ''grin''), (0x1F603, ''smiley''), (0x1F604, ''smile''),
    (0x1F601, ''grin_sweat''), (0x1F606, ''laugh''), (0x1F605, ''sweat_smile''),
    (0x1F923, ''rofl''), (0x1F602, ''joy''), (0x1F642, ''slight_smile''),
    (0x1F643, ''upside_down''), (0x1F609, ''wink''), (0x1F60A, ''blush''),
    (0x1F607, ''innocent''), (0x1F970, ''smiling_hearts''), (0x1F60D, ''heart_eyes''),
    (0x1F929, ''star_struck''), (0x1F618, ''kiss''), (0x1F617, ''kissing''),
    (0x263A, ''relaxed''), (0x1F61A, ''kiss_closed''), (0x1F619, ''kiss_smiling''),
    (0x1F972, ''smiling_tear''), (0x1F60B, ''yum''), (0x1F61B, ''tongue_out''),
    (0x1F61C, ''wink_tongue''), (0x1F92A, ''zany''), (0x1F61D, ''squint_tongue''),
    (0x1F911, ''money_mouth''), (0x1F917, ''hugs''), (0x1F92D, ''hand_mouth''),
    (0x1F92B, ''shushing''), (0x1F914, ''thinking''), (0x1F910, ''zipper''),
    (0x1F928, ''raised_brow''), (0x1F610, ''neutral''), (0x1F611, ''expressionless''),
    (0x1F636, ''no_mouth''), (0x1F60F, ''smirk''), (0x1F612, ''unamused''),
    (0x1F644, ''eye_roll''), (0x1F62C, ''grimace''), (0x1F925, ''lying''),
    (0x1F60C, ''relieved''), (0x1F614, ''pensive''), (0x1F62A, ''sleepy''),
    (0x1F924, ''drooling''), (0x1F634, ''sleeping''), (0x1F637, ''mask''),
    (0x1F912, ''thermometer''), (0x1F915, ''bandage''), (0x1F922, ''nauseated''),
    (0x1F92E, ''vomiting''), (0x1F927, ''sneezing''), (0x1F975, ''hot''), (0x1F976, ''cold''),
    (0x1F974, ''woozy''), (0x1F635, ''dizzy_face''), (0x1F92F, ''exploding''),
    (0x1F920, ''cowboy''), (0x1F973, ''party''), (0x1F978, ''disguised''),
    (0x1F60E, ''sunglasses''), (0x1F913, ''nerd''), (0x1F9D0, ''monocle''),
    (0x1F615, ''confused''), (0x1F61F, ''worried''), (0x1F641, ''frown''), (0x2639, ''sad''),
    (0x1F62E, ''open_mouth''), (0x1F62F, ''hushed''), (0x1F632, ''astonished''),
    (0x1F633, ''flushed''), (0x1F97A, ''pleading''), (0x1F626, ''frowning''),
    (0x1F627, ''anguished''), (0x1F628, ''fearful''), (0x1F630, ''anxious''),
    (0x1F625, ''disappointed''), (0x1F622, ''cry''), (0x1F62D, ''sob''), (0x1F631, ''scream''),
    (0x1F616, ''confounded''), (0x1F623, ''persevere''), (0x1F61E, ''disappointed2''),
    (0x1F613, ''sweat''), (0x1F629, ''weary''), (0x1F62B, ''tired''), (0x1F971, ''yawning''),
    (0x1F624, ''triumph''), (0x1F621, ''rage''), (0x1F620, ''angry''), (0x1F92C, ''cursing''),
    (0x1F608, ''smiling_imp''), (0x1F47F, ''imp''), (0x1F480, ''skull''),
    (0x2620, ''skull_bones''), (0x1F4A9, ''poop''), (0x1F921, ''clown''), (0x1F479, ''ogre''),
    (0x1F47A, ''goblin''), (0x1F47B, ''ghost''), (0x1F47D, ''alien''),
    (0x1F47E, ''space_invader''), (0x1F916, ''robot''), (0x1F63A, ''smiley_cat''),
    (0x1F638, ''smile_cat''), (0x1F639, ''joy_cat''), (0x1F63B, ''heart_eyes_cat''),
    (0x1F63C, ''smirk_cat''), (0x1F63D, ''kiss_cat''), (0x1F640, ''scream_cat''),
    (0x1F63F, ''cry_cat''), (0x1F63E, ''angry_cat'')]"

definition EMOJI_DATA_GESTURES :: "(int \<times> string) list" where
  "EMOJI_DATA_GESTURES = [
    (0x1F44B, ''wave''), (0x1F91A, ''raised_back''), (0x1F590, ''raised_hand''),
    (0x270B, ''hand''), (0x1F596, ''vulcan''), (0x1F44C, ''ok_hand''), (0x1F90C, ''pinched''),
    (0x1F90F, ''pinching''), (0x270C, ''v''), (0x1F91E, ''crossed_fingers''),
    (0x1F91F, ''love_you''), (0x1F918, ''horns''), (0x1F919, ''call_me''),
    (0x1F448, ''point_left''), (0x1F449, ''point_right''), (0x1F446, ''point_up2''),
    (0x1F595, ''middle_finger''), (0x1F447, ''point_down''), (0x261D, ''point_up''),
    (0x1F44D, ''thumbsup''), (0x1F44E, ''thumbsdown''), (0x270A, ''fist''),
    (0x1F44A, ''punch''), (0x1F91B, ''left_fist''), (0x1F91C, ''right_fist''),
    (0x1F44F, ''clap''), (0x1F64C, ''raised_hands''), (0x1F450, ''open_hands''),
    (0x1F932, ''palms_up''), (0x1F91D, ''handshake''), (0x1F64F, ''pray''),
    (0x270D, ''writing''), (0x1F485, ''nail_polish''), (0x1F933, ''selfie''),
    (0x1F4AA, ''muscle''), (0x1F9BE, ''mech_arm''), (0x1F9BF, ''mech_leg''),
    (0x1F9B5, ''leg''), (0x1F9B6, ''foot''), (0x1F442, ''ear''), (0x1F9BB, ''ear_aid''),
    (0x1F443, ''nose''), (0x1F9E0, ''brain''), (0x1F9B7, ''tooth''), (0x1F9B4, ''bone''),
    (0x1F440, ''eyes''), (0x1F441, ''eye''), (0x1F445, ''tongue''), (0x1F444, ''lips'')]"

definition EMOJI_DATA_PEOPLE :: "(int \<times> string) list" where
  "EMOJI_DATA_PEOPLE = [
    (0x1F476, ''baby''), (0x1F9D2, ''child''), (0x1F466, ''boy''), (0x1F467, ''girl''),
    (0x1F9D1, ''person''), (0x1F471, ''blond''), (0x1F468, ''man''), (0x1F9D4, ''beard''),
    (0x1F469, ''woman''), (0x1F9D3, ''older_person''), (0x1F474, ''old_man''),
    (0x1F475, ''old_woman''), (0x1F64D, ''person_frown''), (0x1F64E, ''person_pout''),
    (0x1F645, ''no_good''), (0x1F646, ''ok_person''), (0x1F481, ''tipping_hand''),
    (0x1F64B, ''raising_hand''), (0x1F9CF, ''deaf_person''), (0x1F647, ''person_bow''),
    (0x1F926, ''facepalm''), (0x1F937, ''shrug''), (0x1F46E, ''cop''),
    (0x1F575, ''detective''), (0x1F482, ''guard''), (0x1F977, ''ninja''),
    (0x1F477, ''construction_worker''), (0x1F934, ''prince''), (0x1F478, ''princess''),
    (0x1F473, ''turban''), (0x1F472, ''man_cap''), (0x1F9D5, ''headscarf''),
    (0x1F935, ''tuxedo''), (0x1F470, ''bride''), (0x1F930, ''pregnant''),
    (0x1F931, ''breastfeeding''), (0x1F47C, ''angel''), (0x1F385, ''santa''),
    (0x1F936, ''mrs_claus''), (0x1F9B8, ''superhero''), (0x1F9B9, ''supervillain''),
    (0x1F9D9, ''mage''), (0x1F9DA, ''fairy''), (0x1F9DB, ''vampire''),
    (0x1F9DC, ''merperson''), (0x1F9DD, ''elf''), (0x1F9DE, ''genie''), (0x1F9DF, ''zombie'')]"

definition EMOJI_DATA_HEARTS :: "(int \<times> string) list" where
  "EMOJI_DATA_HEARTS = [
    (0x2764, ''heart''), (0x1F9E1, ''orange_heart''), (0x1F49B, ''yellow_heart''),
    (0x1F49A, ''green_heart''), (0x1F499, ''blue_heart''), (0x1F49C, ''purple_heart''),
    (0x1F90E, ''brown_heart''), (0x1F5A4, ''black_heart''), (0x1F90D, ''white_heart''),
    (0x1F494, ''broken_heart''), (0x2763, ''heart_excl''), (0x1F495, ''two_hearts''),
    (0x1F49E, ''revolving''), (0x1F493, ''heartbeat''), (0x1F497, ''heartpulse''),
    (0x1F496, ''sparkling''), (0x1F498, ''cupid''), (0x1F49D, ''gift_heart''),
    (0x1F49F, ''heart_decor''), (0x2665, ''hearts_suit''), (0x1F48B, ''kiss_mark''),
    (0x1F48C, ''love_letter''), (0x1F48D, ''ring''), (0x1F48E, ''gem''),
    (0x1F490, ''bouquet''), (0x1F339, ''rose''), (0x1F940, ''wilted''),
    (0x1F33A, ''hibiscus''), (0x1F337, ''tulip''), (0x1F338, ''cherry_blossom'')]"

definition EMOJI_DATA_ANIMALS :: "(int \<times> string) list" where
  "EMOJI_DATA_ANIMALS = [
    (0x1F436, ''dog''), (0x1F431, ''cat''), (0x1F42D, ''mouse''), (0x1F439, ''hamster''),
    (0x1F430, ''rabbit''), (0x1F98A, ''fox''), (0x1F43B, ''bear''), (0x1F43C, ''panda''),
    (0x1F428, ''koala''), (0x1F42F, ''tiger''), (0x1F981, ''lion''), (0x1F42E, ''cow''),
    (0x1F437, ''pig''), (0x1F438, ''frog''), (0x1F435, ''monkey''), (0x1F648, ''see_no_evil''),
    (0x1F649, ''hear_no_evil''), (0x1F64A, ''speak_no_evil''), (0x1F412, ''monkey2''),
    (0x1F414, ''chicken''), (0x1F427, ''penguin''), (0x1F426, ''bird''), (0x1F424, ''chick''),
    (0x1F986, ''duck''), (0x1F985, ''eagle''), (0x1F989, ''owl''), (0x1F987, ''bat''),
    (0x1F43A, ''wolf''), (0x1F417, ''boar''), (0x1F434, ''horse''), (0x1F984, ''unicorn''),
    (0x1F41D, ''bee''), (0x1F41B, ''bug''), (0x1F98B, ''butterfly''), (0x1F40C, ''snail''),
    (0x1F41E, ''ladybug''), (0x1F41C, ''ant''), (0x1F422, ''turtle''), (0x1F40D, ''snake''),
    (0x1F409, ''dragon''), (0x1F432, ''dragon_face''), (0x1F995, ''sauropod''),
    (0x1F996, ''t_rex''), (0x1F433, ''whale''), (0x1F42C, ''dolphin''), (0x1F41F, ''fish''),
    (0x1F420, ''trop_fish''), (0x1F421, ''blowfish''), (0x1F988, ''shark''),
    (0x1F419, ''octopus''), (0x1F41A, ''shell''), (0x1F40B, ''whale2''),
    (0x1F40A, ''crocodile''), (0x1F406, ''leopard''), (0x1F405, ''tiger2''),
    (0x1F403, ''water_buffalo''), (0x1F402, ''ox''), (0x1F404, ''cow2''), (0x1F98C, ''deer''),
    (0x1F42A, ''camel''), (0x1F42B, ''camel2''), (0x1F999, ''llama''), (0x1F992, ''giraffe''),
    (0x1F418, ''elephant''), (0x1F98F, ''rhino''), (0x1F99B, ''hippo''), (0x1F401, ''mouse2''),
    (0x1F400, ''rat''), (0x1F407, ''rabbit2''), (0x1F43F, ''chipmunk''),
    (0x1F994, ''hedgehog''), (0x1F9A1, ''badger''), (0x1F43E, ''paw_prints'')]"

definition EMOJI_DATA_FOOD :: "(int \<times> string) list" where
  "EMOJI_DATA_FOOD = [
    (0x1F34E, ''apple''), (0x1F34F, ''green_apple''), (0x1F350, ''pear''),
    (0x1F34A, ''orange''), (0x1F34B, ''lemon''), (0x1F34C, ''banana''),
    (0x1F349, ''watermelon''), (0x1F347, ''grapes''), (0x1F353, ''strawberry''),
    (0x1FAD0, ''blueberries''), (0x1F352, ''cherries''), (0x1F351, ''peach''),
    (0x1F96D, ''mango''), (0x1F34D, ''pineapple''), (0x1F965, ''coconut''),
    (0x1F95D, ''kiwi''), (0x1F345, ''tomato''), (0x1F346, ''eggplant''),
    (0x1F951, ''avocado''), (0x1F966, ''broccoli''), (0x1F96C, ''leafy_green''),
    (0x1F952, ''cucumber''), (0x1F336, ''hot_pepper''), (0x1F33D, ''corn''),
    (0x1F955, ''carrot''), (0x1F9C4, ''garlic''), (0x1F9C5, ''onion''), (0x1F954, ''potato''),
    (0x1F360, ''potato2''), (0x1F950, ''croissant''), (0x1F35E, ''bread''),
    (0x1F956, ''baguette''), (0x1FAD3, ''flatbread''), (0x1F968, ''pretzel''),
    (0x1F96F, ''bagel''), (0x1F95E, ''pancakes''), (0x1F9C7, ''waffle''),
    (0x1F9C0, ''cheese''), (0x1F356, ''meat''), (0x1F357, ''poultry''), (0x1F969, ''steak''),
    (0x1F953, ''bacon''), (0x1F354, ''hamburger''), (0x1F35F, ''fries''), (0x1F355, ''pizza''),
    (0x1F32D, ''hotdog''), (0x1F96A, ''sandwich''), (0x1F32E, ''taco''),
    (0x1F32F, ''burrito''), (0x1FAD4, ''tamale''), (0x1F959, ''falafel''), (0x1F95A, ''egg''),
    (0x1F373, ''cooking''), (0x1F958, ''paella''), (0x1F372, ''stew''), (0x1FAD5, ''fondue''),
    (0x1F963, ''bowl''), (0x1F957, ''salad''), (0x1F37F, ''popcorn''), (0x1F9C8, ''butter''),
    (0x1F9C2, ''salt''), (0x1F35C, ''ramen''), (0x1F35D, ''spaghetti''), (0x1F35B, ''curry''),
    (0x1F35A, ''rice''), (0x1F359, ''rice_ball''), (0x1F358, ''rice_cracker''),
    (0x1F365, ''fish_cake''), (0x1F960, ''fortune''), (0x1F961, ''takeout''),
    (0x1F366, ''icecream''), (0x1F367, ''shaved_ice''), (0x1F368, ''ice_cream''),
    (0x1F369, ''doughnut''), (0x1F36A, ''cookie''), (0x1F382, ''birthday''),
    (0x1F370, ''cake''), (0x1F9C1, ''cupcake''), (0x1F967, ''pie''), (0x1F36B, ''chocolate''),
    (0x1F36C, ''candy''), (0x1F36D, ''lollipop''), (0x1F36E, ''custard''),
    (0x1F36F, ''honey''), (0x1F37C, ''bottle''), (0x1F95B, ''milk''), (0x2615, ''coffee''),
    (0x1FAD6, ''teapot''), (0x1F375, ''tea''), (0x1F376, ''sake''), (0x1F37E, ''champagne''),
    (0x1F377, ''wine''), (0x1F378, ''cocktail''), (0x1F379, ''tropical''), (0x1F37A, ''beer''),
    (0x1F37B, ''beers''), (0x1F942, ''clinking''), (0x1F943, ''tumbler''),
    (0x1F964, ''cup_straw''), (0x1F9CB, ''bubble_tea''), (0x1F9C3, ''juice''),
    (0x1F9C9, ''mate''), (0x1F9CA, ''ice'')]"

definition EMOJI_DATA_ACTIVITIES :: "(int \<times> string) list" where
  "EMOJI_DATA_ACTIVITIES = [
    (0x26BD, ''soccer''), (0x1F3C0, ''basketball''), (0x1F3C8, ''football''),
    (0x26BE, ''baseball''), (0x1F94E, ''softball''), (0x1F3BE, ''tennis''),
    (0x1F3D0, ''volleyball''), (0x1F3C9, ''rugby''), (0x1F94F, ''flying_disc''),
    (0x1F3B1, ''billiards''), (0x1F3D3, ''ping_pong''), (0x1F3F8, ''badminton''),
    (0x1F3D2, ''hockey''), (0x1F3D1, ''field_hockey''), (0x1F94D, ''lacrosse''),
    (0x1F3CF, ''cricket''), (0x1F945, ''goal''), (0x26F3, ''golf''), (0x1F3F9, ''bow_arrow''),
    (0x1F3A3, ''fishing''), (0x1F93F, ''diving''), (0x1F3BD, ''running_shirt''),
    (0x1F6F9, ''skateboard''), (0x1F6FC, ''roller_skate''), (0x1F94C, ''curling''),
    (0x26F7, ''ski''), (0x1F3BF, ''skis''), (0x1F3C2, ''snowboard''),
    (0x1F3CB, ''weight_lift''), (0x1F93C, ''wrestling''), (0x1F938, ''cartwheeling''),
    (0x1F93A, ''fencing''), (0x1F93E, ''handball''), (0x1F3CC, ''golfing''),
    (0x1F3C7, ''horse_racing''), (0x1F9D8, ''yoga''), (0x1F3AF, ''dart''), (0x1FA80, ''yoyo''),
    (0x1FA81, ''kite''), (0x1F3B0, ''slot''), (0x1F3B2, ''dice''), (0x1F9E9, ''puzzle''),
    (0x1F9F8, ''teddy''), (0x1FA86, ''nesting''), (0x2660, ''spades''), (0x2665, ''hearts''),
    (0x2666, ''diamonds''), (0x2663, ''clubs''), (0x265F, ''chess''), (0x1F0CF, ''joker''),
    (0x1F004, ''mahjong''), (0x1F3AD, ''masks''), (0x1F3A8, ''art''), (0x1F3C6, ''trophy''),
    (0x1F3C5, ''medal''), (0x1F947, ''first_place''), (0x1F948, ''second_place''),
    (0x1F949, ''third_place''), (0x1F94A, ''boxing''), (0x1F94B, ''martial_arts''),
    (0x1F3AE, ''video_game''), (0x1F579, ''joystick''), (0x1F3B9, ''piano''),
    (0x1F3B7, ''saxophone''), (0x1F3BA, ''trumpet''), (0x1F3B8, ''guitar''),
    (0x1FA95, ''banjo''), (0x1F3BB, ''violin''), (0x1FA98, ''accordion''), (0x1F941, ''drum''),
    (0x1FA97, ''maracas''), (0x1F3BC, ''music_score''), (0x1F3A4, ''microphone''),
    (0x1F3A7, ''headphones''), (0x1F4FB, ''radio'')]"

definition EMOJI_DATA_TRAVEL :: "(int \<times> string) list" where
  "EMOJI_DATA_TRAVEL = [
    (0x1F697, ''car''), (0x1F695, ''taxi''), (0x1F699, ''suv''), (0x1F68C, ''bus''),
    (0x1F68E, ''trolley''), (0x1F3CE, ''race_car''), (0x1F693, ''police_car''),
    (0x1F691, ''ambulance''), (0x1F692, ''fire_engine''), (0x1F690, ''minibus''),
    (0x1F6FB, ''pickup''), (0x1F69A, ''truck''), (0x1F69B, ''semi''), (0x1F69C, ''tractor''),
    (0x1F3CD, ''motorcycle''), (0x1F6F5, ''scooter''), (0x1F6B2, ''bicycle''),
    (0x1F6F4, ''kick_scooter''), (0x1F6FA, ''auto_rick''), (0x1F6A8, ''police_light''),
    (0x1F694, ''police_car2''), (0x1F68D, ''bus2''), (0x1F698, ''car2''), (0x1F696, ''taxi2''),
    (0x1F682, ''train''), (0x1F683, ''railway''), (0x1F684, ''bullet''),
    (0x1F685, ''bullet2''), (0x1F686, ''train2''), (0x1F687, ''metro''),
    (0x1F688, ''light_rail''), (0x1F689, ''station''), (0x1F68A, ''tram''),
    (0x1F69D, ''monorail''), (0x1F69E, ''mountain_rail''), (0x1F69F, ''suspension''),
    (0x1F6A0, ''aerial''), (0x1F6A1, ''gondola''), (0x1F681, ''helicopter''),
    (0x2708, ''airplane''), (0x1F6E9, ''small_plane''), (0x1F6EB, ''departure''),
    (0x1F6EC, ''arrival''), (0x1FA82, ''parachute''), (0x1F4BA, ''seat''),
    (0x1F680, ''rocket''), (0x1F6F8, ''ufo''), (0x1F6F0, ''satellite''), (0x1F6A2, ''ship''),
    (0x26F5, ''sailboat''), (0x1F6F6, ''canoe''), (0x1F6A4, ''speedboat''),
    (0x1F6F3, ''ferry''), (0x26F4, ''ferry2''), (0x1F6A3, ''rowing''), (0x2693, ''anchor''),
    (0x26FD, ''fuel''), (0x1F6A7, ''construction''), (0x1F6A6, ''traffic''),
    (0x1F6A5, ''traffic2''), (0x1F68F, ''bus_stop''), (0x1F5FA, ''world_map''),
    (0x1F5FF, ''moyai''), (0x1F5FD, ''liberty''), (0x1F5FC, ''tokyo_tower''),
    (0x1F3F0, ''castle''), (0x1F3EF, ''japanese_castle''), (0x1F3E0, ''house''),
    (0x1F3E1, ''house_garden''), (0x1F3E2, ''office''), (0x1F3E3, ''post_office''),
    (0x1F3E4, ''post_office2''), (0x1F3E5, ''hospital''), (0x1F3E6, ''bank''),
    (0x1F3E8, ''hotel''), (0x1F3E9, ''love_hotel''), (0x1F3EA, ''store''),
    (0x1F3EB, ''school''), (0x1F3EC, ''department''), (0x1F3ED, ''factory''),
    (0x26EA, ''church''), (0x1F54C, ''mosque''), (0x1F54D, ''synagogue''),
    (0x26E9, ''shinto''), (0x1F54B, ''kaaba''), (0x26F2, ''fountain''), (0x26FA, ''tent''),
    (0x1F30B, ''volcano''), (0x1F3D4, ''mountain_snow''), (0x1F3D5, ''camping''),
    (0x1F3D6, ''beach''), (0x1F3DC, ''desert''), (0x1F3DD, ''island''), (0x1F3DE, ''park''),
    (0x1F3DF, ''stadium''), (0x1F3DB, ''classical''), (0x1F3DA, ''derelict''),
    (0x1F3D7, ''construction2''), (0x1F3D8, ''houses''), (0x1F3D9, ''cityscape'')]"

definition EMOJI_DATA_OBJECTS :: "(int \<times> string) list" where
  "EMOJI_DATA_OBJECTS = [
    (0x231A, ''watch''), (0x1F4F1, ''phone''), (0x1F4F2, ''calling''), (0x1F4BB, ''laptop''),
    (0x2328, ''keyboard''), (0x1F5A5, ''computer''), (0x1F5A8, ''printer''),
    (0x1F5B1, ''computer_mouse''), (0x1F5B2, ''trackball''), (0x1F4BD, ''minidisc''),
    (0x1F4BE, ''floppy''), (0x1F4BF, ''cd''), (0x1F4C0, ''dvd''), (0x1F9EE, ''abacus''),
    (0x1F3A5, ''film''), (0x1F39E, ''film_frames''), (0x1F4FD, ''projector''),
    (0x1F3AC, ''clapper''), (0x1F4F7, ''camera''), (0x1F4F8, ''camera_flash''),
    (0x1F4F9, ''video_camera''), (0x1F4FC, ''vhs''), (0x1F50D, ''mag''),
    (0x1F50E, ''mag_right''), (0x1F56F, ''candle''), (0x1F4A1, ''bulb''),
    (0x1F526, ''flashlight''), (0x1F3EE, ''lantern''), (0x1FA94, ''lamp''),
    (0x1F4D4, ''notebook''), (0x1F4D5, ''book_closed''), (0x1F4D6, ''book_open''),
    (0x1F4D7, ''green_book''), (0x1F4D8, ''blue_book''), (0x1F4D9, ''orange_book''),
    (0x1F4DA, ''books''), (0x1F4D3, ''notebook2''), (0x1F4D2, ''ledger''),
    (0x1F4C3, ''page_curl''), (0x1F4DC, ''scroll''), (0x1F4C4, ''page''),
    (0x1F4F0, ''newspaper''), (0x1F5DE, ''newspaper2''), (0x1F4D1, ''bookmark_tabs''),
    (0x1F516, ''bookmark''), (0x1F3F7, ''label''), (0x1F4B0, ''money_bag''),
    (0x1FA99, ''coin''), (0x1F4B4, ''yen''), (0x1F4B5, ''dollar''), (0x1F4B6, ''euro''),
    (0x1F4B7, ''pound''), (0x1F4B8, ''money_wings''), (0x1F4B3, ''credit_card''),
    (0x1F9FE, ''receipt''), (0x1F4B9, ''chart''), (0x2709, ''envelope''), (0x1F4E7, ''email''),
    (0x1F4E8, ''incoming''), (0x1F4E9, ''outbox''), (0x1F4E4, ''outbox2''),
    (0x1F4E5, ''inbox''), (0x1F4E6, ''package''), (0x1F4EB, ''mailbox''),
    (0x1F4EA, ''mailbox2''), (0x1F4EC, ''mailbox3''), (0x1F4ED, ''mailbox4''),
    (0x1F4EE, ''postbox''), (0x1F5F3, ''ballot''), (0x270F, ''pencil''), (0x2712, ''nib''),
    (0x1F58B, ''pen''), (0x1F58A, ''pen2''), (0x1F58C, ''brush''), (0x1F58D, ''crayon''),
    (0x1F4DD, ''memo''), (0x1F4BC, ''briefcase''), (0x1F4C1, ''folder''),
    (0x1F4C2, ''folder_open''), (0x1F5C2, ''dividers''), (0x1F4C5, ''calendar''),
    (0x1F4C6, ''calendar2''), (0x1F5D2, ''spiral_note''), (0x1F5D3, ''spiral_cal''),
    (0x1F4C7, ''rolodex''), (0x1F4C8, ''chart_up''), (0x1F4C9, ''chart_down''),
    (0x1F4CA, ''bar_chart''), (0x1F4CB, ''clipboard''), (0x1F4CC, ''pushpin''),
    (0x1F4CD, ''pin''), (0x1F4CE, ''paperclip''), (0x1F587, ''paperclips''),
    (0x1F4CF, ''ruler''), (0x1F4D0, ''ruler2''), (0x2702, ''scissors''),
    (0x1F5C3, ''card_box''), (0x1F5C4, ''cabinet''), (0x1F5D1, ''wastebasket''),
    (0x1F512, ''lock''), (0x1F513, ''unlock''), (0x1F50F, ''lock_pen''),
    (0x1F510, ''lock_key''), (0x1F511, ''key''), (0x1F5DD, ''old_key''), (0x1F528, ''hammer''),
    (0x1FA93, ''axe''), (0x26CF, ''pick''), (0x2692, ''hammer_pick''), (0x1F6E0, ''tools''),
    (0x1F5E1, ''dagger''), (0x2694, ''swords''), (0x1F52B, ''gun''), (0x1FA83, ''boomerang''),
    (0x1F3F9, ''bow2''), (0x1F6E1, ''shield''), (0x1FA9A, ''carpentry''),
    (0x1F527, ''wrench''), (0x1FA9B, ''screwdriver''), (0x1F529, ''nut_bolt''),
    (0x2699, ''gear''), (0x1F5DC, ''clamp''), (0x2696, ''scales''), (0x1F9AF, ''cane''),
    (0x1F517, ''link''), (0x26D3, ''chains''), (0x1FA9D, ''hook''), (0x1F9F0, ''toolbox''),
    (0x1F9F2, ''magnet''), (0x1FA9C, ''ladder''), (0x2697, ''alembic''),
    (0x1F9EA, ''test_tube''), (0x1F9EB, ''petri''), (0x1F9EC, ''dna''),
    (0x1F52C, ''microscope''), (0x1F52D, ''telescope''), (0x1F4E1, ''satellite2''),
    (0x1F489, ''syringe''), (0x1FA78, ''drop_blood''), (0x1F48A, ''pill''),
    (0x1FA79, ''adhesive_bandage''), (0x1FA7A, ''stethoscope''), (0x1F6AA, ''door''),
    (0x1F6D7, ''elevator''), (0x1FA9E, ''mirror''), (0x1FA9F, ''window''), (0x1F6CF, ''bed''),
    (0x1F6CB, ''couch''), (0x1FA91, ''chair''), (0x1F6BD, ''toilet''), (0x1FAA0, ''plunger''),
    (0x1F6BF, ''shower''), (0x1F6C1, ''bathtub''), (0x1FAA4, ''mousetrap''),
    (0x1FA92, ''razor''), (0x1F9F4, ''lotion''), (0x1F9F7, ''safety_pin''),
    (0x1F9F9, ''broom''), (0x1F9FA, ''basket''), (0x1F9FB, ''roll''), (0x1FAA3, ''bucket''),
    (0x1F9FC, ''soap''), (0x1FAE7, ''bubbles''), (0x1FAA5, ''toothbrush''),
    (0x1F9FD, ''sponge''), (0x1F9EF, ''extinguisher''), (0x1F6D2, ''cart''),
    (0x1F6AC, ''cigarette''), (0x26B0, ''coffin''), (0x1FAA6, ''headstone''),
    (0x26B1, ''urn''), (0x1F5FF, ''moai''), (0x1FAA7, ''placard''), (0x1FAA8, ''rock'')]"

definition EMOJI_DATA_SYMBOLS :: "(int \<times> string) list" where
  "EMOJI_DATA_SYMBOLS = [
    (0x2705, ''check''), (0x274C, ''cross''), (0x274E, ''cross_neg''), (0x2795, ''plus''),
    (0x2796, ''minus''), (0x2797, ''divide''), (0x27B0, ''curly_loop''),
    (0x27BF, ''double_loop''), (0x2B50, ''star''), (0x1F31F, ''star2''),
    (0x2728, ''sparkles''), (0x1F4AB, ''dizzy''), (0x1F4A5, ''boom''), (0x1F4A2, ''anger''),
    (0x1F4A6, ''sweat_drops''), (0x1F4A8, ''dash''), (0x1F573, ''hole''),
    (0x1F4AC, ''speech''), (0x1F5E8, ''left_speech''), (0x1F5EF, ''speech_right''),
    (0x1F4AD, ''thought''), (0x1F4A4, ''zzz''), (0x1F525, ''fire''), (0x1F4AF, ''100''),
    (0x1F389, ''tada''), (0x1F38A, ''confetti''), (0x1F388, ''balloon''), (0x1F381, ''gift''),
    (0x1F380, ''ribbon''), (0x1F397, ''reminder''), (0x1F39F, ''tickets''),
    (0x1F3AB, ''ticket''), (0x1F396, ''military''), (0x26A1, ''zap''), (0x1F300, ''cyclone''),
    (0x1F308, ''rainbow''), (0x2602, ''umbrella2''), (0x2614, ''umbrella''),
    (0x2604, ''comet''), (0x1F4A7, ''droplet''), (0x1F30A, ''ocean''), (0x1F514, ''bell''),
    (0x1F515, ''no_bell''), (0x1F3B5, ''music''), (0x1F3B6, ''notes''),
    (0x1F399, ''studio_mic''), (0x1F39A, ''level''), (0x1F39B, ''knobs''), (0x1F4FA, ''tv''),
    (0x1F507, ''mute''), (0x1F508, ''quiet''), (0x1F509, ''sound''), (0x1F50A, ''loud''),
    (0x1F4E3, ''mega''), (0x1F4E2, ''loudspeaker''), (0x1F50B, ''battery''),
    (0x1F50C, ''plug''), (0x2757, ''exclamation''), (0x2753, ''question''),
    (0x2754, ''grey_question''), (0x2755, ''grey_excl''), (0x2049, ''interrobang''),
    (0x203C, ''bangbang''), (0x1F534, ''red_circle''), (0x1F7E0, ''orange_circle''),
    (0x1F7E1, ''yellow_circle''), (0x1F7E2, ''green_circle''), (0x1F535, ''blue_circle''),
    (0x1F7E3, ''purple_circle''), (0x1F7E4, ''brown_circle''), (0x26AB, ''black_circle''),
    (0x26AA, ''white_circle''), (0x1F7E5, ''red_square''), (0x1F7E7, ''orange_square''),
    (0x1F7E8, ''yellow_square''), (0x1F7E9, ''green_square''), (0x1F7E6, ''blue_square''),
    (0x1F7EA, ''purple_square''), (0x1F7EB, ''brown_square''), (0x2B1B, ''black_square''),
    (0x2B1C, ''white_square''), (0x25FC, ''black_medium''), (0x25FB, ''white_medium''),
    (0x25FE, ''black_small''), (0x25FD, ''white_small''), (0x25AA, ''black_tiny''),
    (0x25AB, ''white_tiny''), (0x1F536, ''orange_diamond''), (0x1F537, ''blue_diamond''),
    (0x1F538, ''small_orange''), (0x1F539, ''small_blue''), (0x1F53A, ''red_triangle''),
    (0x1F53B, ''red_triangle2''), (0x1F4A0, ''diamond_shape''), (0x1F518, ''radio_button''),
    (0x1F532, ''black_button''), (0x1F533, ''white_button''), (0x26D4, ''no_entry''),
    (0x1F6AB, ''no_entry2''), (0x1F6B3, ''no_bikes''), (0x1F6AD, ''no_smoking''),
    (0x1F6AF, ''no_litter''), (0x1F6B1, ''no_water''), (0x1F6B7, ''no_pedestrians''),
    (0x1F4F5, ''no_phones''), (0x1F51E, ''underage''), (0x2622, ''radioactive''),
    (0x2623, ''biohazard''), (0x2B06, ''arrow_up''), (0x2197, ''arrow_upper_right''),
    (0x27A1, ''arrow_right''), (0x2198, ''arrow_lower_right''), (0x2B07, ''arrow_down''),
    (0x2199, ''arrow_lower_left''), (0x2B05, ''arrow_left''), (0x2196, ''arrow_upper_left''),
    (0x2195, ''arrow_up_down''), (0x2194, ''arrow_left_right''), (0x21A9, ''leftwards''),
    (0x21AA, ''rightwards''), (0x2934, ''arrow_heading_up''), (0x2935, ''arrow_heading_down''),
    (0x1F503, ''clockwise''), (0x1F504, ''counterclockwise''), (0x1F519, ''back''),
    (0x1F51A, ''end''), (0x1F51B, ''on''), (0x1F51C, ''soon''), (0x1F51D, ''top''),
    (0x1F6D0, ''place_of_worship''), (0x269B, ''atom''), (0x1F549, ''om''),
    (0x2721, ''star_of_david''), (0x2638, ''wheel''), (0x262F, ''yin_yang''),
    (0x271D, ''cross2''), (0x2626, ''orthodox''), (0x262A, ''star_crescent''),
    (0x262E, ''peace''), (0x1F54E, ''menorah''), (0x1F52F, ''six_star''), (0x2648, ''aries''),
    (0x2649, ''taurus''), (0x264A, ''gemini''), (0x264B, ''cancer''), (0x264C, ''leo''),
    (0x264D, ''virgo''), (0x264E, ''libra''), (0x264F, ''scorpio''), (0x2650, ''sagittarius''),
    (0x2651, ''capricorn''), (0x2652, ''aquarius''), (0x2653, ''pisces''),
    (0x26CE, ''ophiuchus''), (0x1F500, ''shuffle''), (0x1F501, ''repeat''),
    (0x1F502, ''repeat_one''), (0x25B6, ''play''), (0x23E9, ''fast_forward''),
    (0x23ED, ''next_track''), (0x23EF, ''play_pause''), (0x25C0, ''reverse''),
    (0x23EA, ''rewind''), (0x23EE, ''prev_track''), (0x1F53C, ''up_button''),
    (0x23EB, ''fast_up''), (0x1F53D, ''down_button''), (0x23EC, ''fast_down''),
    (0x23F8, ''pause''), (0x23F9, ''stop''), (0x23FA, ''record''), (0x23CF, ''eject''),
    (0x1F3A6, ''cinema''), (0x1F505, ''low_bright''), (0x1F506, ''high_bright''),
    (0x1F4F6, ''signal''), (0x1F4F3, ''vibration''), (0x1F4F4, ''phone_off''),
    (0x2640, ''female''), (0x2642, ''male''), (0x26A7, ''transgender''),
    (0x2716, ''heavy_mult''), (0x2795, ''heavy_plus''), (0x2796, ''heavy_minus''),
    (0x2797, ''heavy_div''), (0x267E, ''infinity''), (0x1F4B2, ''heavy_dollar''),
    (0x1F4B1, ''currency''), (0xA9, ''copyright''), (0xAE, ''registered''), (0x2122, ''tm''),
    (0x30, ''zero''), (0x31, ''one''), (0x32, ''two''), (0x33, ''three''), (0x34, ''four''),
    (0x35, ''five''), (0x36, ''six''), (0x37, ''seven''), (0x38, ''eight''), (0x39, ''nine''),
    (0x1F51F, ''ten''), (0x1F520, ''abc_upper''), (0x1F521, ''abc_lower''),
    (0x1F522, ''numbers''), (0x1F523, ''symbols''), (0x1F524, ''abc''),
    (0x1F170, ''a_button''), (0x1F18E, ''ab_button''), (0x1F171, ''b_button''),
    (0x1F191, ''cl''), (0x1F192, ''cool''), (0x1F193, ''free''), (0x2139, ''info''),
    (0x1F194, ''id''), (0x24C2, ''m''), (0x1F195, ''new''), (0x1F196, ''ng''),
    (0x1F17E, ''o_button''), (0x1F197, ''ok''), (0x1F17F, ''parking''), (0x1F198, ''sos''),
    (0x1F199, ''up''), (0x1F19A, ''vs''), (0x1F201, ''koko''), (0x1F202, ''sa''),
    (0x1F237, ''monthly''), (0x1F236, ''u6709''), (0x1F22F, ''u6307''), (0x1F250, ''u5272''),
    (0x1F239, ''u5408''), (0x1F21A, ''u7121''), (0x1F232, ''u7981''), (0x1F251, ''u7a7a''),
    (0x1F238, ''u7533''), (0x1F234, ''u5408_2''), (0x1F233, ''u7a7a_2''),
    (0x3297, ''circled_ideograph''), (0x3299, ''circled_secret''), (0x1F23A, ''u55b6''),
    (0x1F235, ''u6e80'')]"

definition EMOJI_DATA_FLAGS :: "(int \<times> string) list" where
  "EMOJI_DATA_FLAGS = [
    (0x1F3C1, ''checkered''), (0x1F6A9, ''triangular''), (0x1F38C, ''crossed_flags''),
    (0x1F3F4, ''black_flag''), (0x1F3F3, ''white_flag''), (0x1F3F3, ''rainbow_flag''),
    (0x1F3F4, ''pirate'')]"

definition EMOJI_DATA :: "(string \<times> (int \<times> string) list) list" where
  "EMOJI_DATA = [
    (''FACES'', EMOJI_DATA_FACES),
    (''GESTURES'', EMOJI_DATA_GESTURES),
    (''PEOPLE'', EMOJI_DATA_PEOPLE),
    (''HEARTS'', EMOJI_DATA_HEARTS),
    (''ANIMALS'', EMOJI_DATA_ANIMALS),
    (''FOOD'', EMOJI_DATA_FOOD),
    (''ACTIVITIES'', EMOJI_DATA_ACTIVITIES),
    (''TRAVEL'', EMOJI_DATA_TRAVEL),
    (''OBJECTS'', EMOJI_DATA_OBJECTS),
    (''SYMBOLS'', EMOJI_DATA_SYMBOLS),
    (''FLAGS'', EMOJI_DATA_FLAGS)]"

section \<open>Notions used to state the properties\<close>

text \<open>
  The configuration in declaration order, as table entries: the categories in the order
  of the dictionary, the entries of a category in the order of its list.
\<close>

definition declared_entries :: "config \<Rightarrow> (int \<times> string \<times> string \<times> string) list" where
  "declared_entries cfg =
     concat (map (\<lambda>(category, emojis).
                    map (\<lambda>(codepoint, shortcode).
                           (codepoint, shortcode, var_name_of shortcode, category)) emojis) cfg)"

text \<open>The URL requested for a code point.\<close>

definition fetch_url :: "int \<Rightarrow> string" where
  "fetch_url codepoint = TWEMOJI_BASE @ ''/'' @ codepoint_to_twemoji_filename codepoint"

text \<open>The number of delays in a trace.\<close>

definition sleeps :: "event list \<Rightarrow> nat" where
  "sleeps evs = length (filter (\<lambda>ev. ev = Sleep) evs)"

text \<open>A cache is warm for a configuration when it holds a file for every configured code point.\<close>

definition warm :: "(string \<rightharpoonup> bytes) \<Rightarrow> config \<Rightarrow> bool" where
  "warm c cfg \<longleftrightarrow> (\<forall>item \<in> set cfg. \<forall>e \<in> set (snd item). cache_get c (fst e) \<noteq> None)"

text \<open>A remote source that answers every request with a body or a caught error.\<close>

definition never_raises :: "network \<Rightarrow> bool" where
  "never_raises net \<longleftrightarrow> (\<forall>h u e. net h u \<noteq> Raises e)"

text \<open>The first line of the bitmap constant printed for a variable name.\<close>

definition bitmap_head :: "string \<Rightarrow> string" where
  "bitmap_head var_name = ''static const uint16_t '' @ var_name @ ''[144] PROGMEM = {''"

section \<open>A checker for distinct names\<close>

text \<open>
  To check that a long list of names has no repetition, the names are entered one after
  the other into a binary trie over the bits of their characters; entering a name that is
  already there fails. This is a device of the proofs below, not part of the generator.
\<close>

datatype trie = Leaf | Node bool trie trie

fun trie_mem :: "bool list \<Rightarrow> trie \<Rightarrow> bool" where
  "trie_mem bs Leaf = False"
| "trie_mem [] (Node e l r) = e"
| "trie_mem (True # bs) (Node e l r) = trie_mem bs r"
| "trie_mem (False # bs) (Node e l r) = trie_mem bs l"

fun trie_path :: "bool list \<Rightarrow> trie" where
  "trie_path [] = Node True Leaf Leaf"
| "trie_path (True # bs) = Node False Leaf (trie_path bs)"
| "trie_path (False # bs) = Node False (trie_path bs) Leaf"

fun put_left :: "bool \<Rightarrow> trie \<Rightarrow> trie option \<Rightarrow> trie option" where
  "put_left e r None = None"
| "put_left e r (Some l) = Some (Node e l r)"

fun put_right :: "bool \<Rightarrow> trie \<Rightarrow> trie option \<Rightarrow> trie option" where
  "put_right e l None = None"
| "put_right e l (Some r) = Some (Node e l r)"

fun trie_add :: "bool list \<Rightarrow> trie \<Rightarrow> trie option" where
  "trie_add bs Leaf = Some (trie_path bs)"
| "trie_add [] (Node True l r) = None"
| "trie_add [] (Node False l r) = Some (Node True l r)"
| "trie_add (True # bs) (Node e l r) = put_right e l (trie_add bs r)"
| "trie_add (False # bs) (Node e l r) = put_left e r (trie_add bs l)"

fun name_bits :: "string \<Rightarrow> bool list" where
  "name_bits [] = []"
| "name_bits (Char a b c d e f g h # s) = a # b # c # d # e # f # g # h # name_bits s"

fun add_all :: "trie option \<Rightarrow> string list \<Rightarrow> bool" where
  "add_all None ks = False"
| "add_all (Some t) [] = True"
| "add_all (Some t) (k # ks) = add_all (trie_add (name_bits k) t) ks"

section \<open>Properties of the quantization\<close>

lemma and_shifted_mask:
  fixes x :: int
  shows "x AND push_bit k (mask m) = push_bit k (take_bit m (drop_bit k x))"
proof (rule bit_eqI)
  fix n
  show "bit (x AND push_bit k (mask m)) n = bit (push_bit k (take_bit m (drop_bit k x))) n"
  proof (cases "k \<le> n")
    case True
    then obtain j where "n = k + j" using le_Suc_ex by blast
    then show ?thesis by (auto simp: bit_simps)
  next
    case False
    then show ?thesis by (simp add: bit_simps)
  qed
qed

lemma byte_high_bits:
  fixes r :: int
  assumes "0 \<le> r" "r \<le> 255" "k \<le> 8"
  shows "take_bit (8 - k) (drop_bit k r) = drop_bit k r"
proof -
  have "take_bit 8 r = r"
    using assms by (simp add: take_bit_int_eq_self)
  then have "drop_bit k r = drop_bit k (take_bit 8 r)" by simp
  also have "\<dots> = take_bit (8 - k) (drop_bit k r)"
    by (simp add: drop_bit_take_bit)
  finally show ?thesis ..
qed

lemma and_F8_byte:
  fixes r :: int
  assumes "0 \<le> r" "r \<le> 255"
  shows "r AND 0xF8 = push_bit 3 (drop_bit 3 r)"
proof -
  have "(0xF8::int) = push_bit 3 (mask 5)" by (simp add: mask_eq_exp_minus_1)
  then have "r AND 0xF8 = r AND push_bit 3 (mask 5)" by (simp only:)
  then have "r AND 0xF8 = push_bit 3 (take_bit (8 - 3) (drop_bit 3 r))"
    by (simp only: and_shifted_mask) simp
  then show ?thesis using byte_high_bits [OF assms, of 3] by simp
qed

lemma and_FC_byte:
  fixes g :: int
  assumes "0 \<le> g" "g \<le> 255"
  shows "g AND 0xFC = push_bit 2 (drop_bit 2 g)"
proof -
  have "(0xFC::int) = push_bit 2 (mask 6)" by (simp add: mask_eq_exp_minus_1)
  then have "g AND 0xFC = g AND push_bit 2 (mask 6)" by (simp only:)
  then have "g AND 0xFC = push_bit 2 (take_bit (8 - 2) (drop_bit 2 g))"
    by (simp only: and_shifted_mask) simp
  then show ?thesis using byte_high_bits [OF assms, of 2] by simp
qed

lemma rgb565_fields:
  assumes "0 \<le> r" "r \<le> 255" "0 \<le> g" "g \<le> 255"
  shows "rgb_to_rgb565 r g b =
         push_bit 11 (drop_bit 3 r) OR push_bit 5 (drop_bit 2 g) OR drop_bit 3 b"
  using assms by (simp add: rgb_to_rgb565_def and_F8_byte and_FC_byte)

lemma rgb565_range:
  assumes "0 \<le> r" "r \<le> 255" "0 \<le> g" "g \<le> 255" "0 \<le> b" "b \<le> 255"
  shows "0 \<le> rgb_to_rgb565 r g b \<and> rgb_to_rgb565 r g b \<le> 0xFFFF"
proof -
  let ?R = "push_bit 11 (drop_bit 3 r)" and ?G = "push_bit 5 (drop_bit 2 g)"
    and ?B = "drop_bit 3 b"
  have eq: "rgb_to_rgb565 r g b = ?R OR ?G OR ?B"
    using assms by (simp add: rgb565_fields)
  have R: "0 \<le> ?R" "?R < 2 ^ 16"
    using assms by (simp_all add: push_bit_eq_mult drop_bit_eq_div)
  have G: "0 \<le> ?G" "?G < 2 ^ 16"
    using assms by (simp_all add: push_bit_eq_mult drop_bit_eq_div)
  have B: "0 \<le> ?B" "?B < 2 ^ 16"
    using assms by (simp_all add: drop_bit_eq_div)
  have GB: "?G OR ?B < 2 ^ 16"
    by (rule OR_upper [OF G(1) G(2) B(2)])
  have "?R OR (?G OR ?B) < 2 ^ 16"
    by (rule OR_upper [OF R(1) R(2) GB])
  moreover have "0 \<le> ?R OR (?G OR ?B)" using R G B by simp
  ultimately show ?thesis by (simp add: eq or.assoc)
qed

text \<open>
  Claim C1. For all channels \<open>r\<close>, \<open>g\<close>, \<open>b\<close> in 0..255, \<open>rgb_to_rgb565\<close> returns
  \<open>((r >> 3) << 11) | ((g >> 2) << 5) | (b >> 3)\<close>: five bits of red on top, six of
  green, five of blue, each channel cut by a right shift (\<open>drop_bit n x = x div 2 ^ n\<close>,
  so the low bits are dropped, not rounded), and the result is a 16-bit value. White
  gives \<open>0xFFFF\<close>, black \<open>0x0000\<close>, pure red \<open>0xF800\<close>.
\<close>

theorem rgb_to_rgb565_packs_565:
  assumes "0 \<le> r" "r \<le> 255" "0 \<le> g" "g \<le> 255" "0 \<le> b" "b \<le> 255"
  shows "rgb_to_rgb565 r g b =
           push_bit 11 (drop_bit 3 r) OR push_bit 5 (drop_bit 2 g) OR drop_bit 3 b
         \<and> rgb_to_rgb565 r g b = push_bit 11 (r div 8) OR push_bit 5 (g div 4) OR b div 8
         \<and> 0 \<le> rgb_to_rgb565 r g b \<and> rgb_to_rgb565 r g b \<le> 0xFFFF
         \<and> rgb_to_rgb565 255 255 255 = 0xFFFF
         \<and> rgb_to_rgb565 0 0 0 = 0x0000
         \<and> rgb_to_rgb565 255 0 0 = 0xF800"
proof -
  have fields: "rgb_to_rgb565 r g b =
          push_bit 11 (drop_bit 3 r) OR push_bit 5 (drop_bit 2 g) OR drop_bit 3 b"
    using assms by (simp add: rgb565_fields)
  then have divs: "rgb_to_rgb565 r g b = push_bit 11 (r div 8) OR push_bit 5 (g div 4) OR b div 8"
    by (simp add: drop_bit_eq_div)
  have range: "0 \<le> rgb_to_rgb565 r g b" "rgb_to_rgb565 r g b \<le> 0xFFFF"
    using rgb565_range [OF assms] by simp_all
  have white: "rgb_to_rgb565 255 255 255 = 0xFFFF" by (simp add: rgb_to_rgb565_def)
  have black: "rgb_to_rgb565 0 0 0 = 0x0000" by (simp add: rgb_to_rgb565_def)
  have red: "rgb_to_rgb565 255 0 0 = 0xF800" by (simp add: rgb_to_rgb565_def)
  from fields divs range white black red show ?thesis by (intro conjI)
qed

theorem rgb_to_rgb565_packs_565_witness:
  "(0::int) \<le> 200 \<and> (200::int) \<le> 255 \<and> (0::int) \<le> 100 \<and> (100::int) \<le> 255
   \<and> (0::int) \<le> 50 \<and> (50::int) \<le> 255
   \<and> rgb_to_rgb565 200 100 50 = push_bit 11 25 OR push_bit 5 25 OR 6
   \<and> rgb_to_rgb565 200 100 50 = 0xCB26"
  using rgb_to_rgb565_packs_565 [of 200 100 50] by simp

section \<open>Steps of the fetcher\<close>


lemma download_hit:
  assumes "cache_get (cache s) codepoint = Some cached"
  shows "download_twemoji net codepoint s = Inr (Some cached, s)"
  using assms by (simp add: download_twemoji_def)

lemma download_miss_body:
  assumes "cache_get (cache s) codepoint = None"
    and "net (trace s) (fetch_url codepoint) = Body data"
  shows "download_twemoji net codepoint s =
           Inr (Some data,
                s\<lparr>trace := trace s @ [Fetch (fetch_url codepoint)],
                  cache := cache_put (cache s) codepoint data\<rparr>)"
  using assms by (simp add: download_twemoji_def Let_def fetch_url_def)

lemma download_miss_urlerror:
  assumes "cache_get (cache s) codepoint = None"
    and "net (trace s) (fetch_url codepoint) = URLError"
  shows "download_twemoji net codepoint s =
           Inr (None, s\<lparr>trace := trace s @ [Fetch (fetch_url codepoint)]\<rparr>)"
  using assms by (simp add: download_twemoji_def Let_def fetch_url_def)

lemma download_miss_raises:
  assumes "cache_get (cache s) codepoint = None"
    and "net (trace s) (fetch_url codepoint) = Raises e"
  shows "download_twemoji net codepoint s = Inl e"
  using assms by (simp add: download_twemoji_def Let_def fetch_url_def)

lemma download_Inr_fields:
  assumes "download_twemoji net codepoint s = Inr (png_data, s1)"
  shows "out s1 = out s"
    and "all_entries s1 = all_entries s"
    and "success_count s1 = success_count s"
    and "fail_count s1 = fail_count s"
    and "trace s1 = trace s @ (if cache_get (cache s) codepoint = None
                                then [Fetch (fetch_url codepoint)] else [])"
proof -
  have "out s1 = out s \<and> all_entries s1 = all_entries s
        \<and> success_count s1 = success_count s \<and> fail_count s1 = fail_count s
        \<and> trace s1 = trace s @ (if cache_get (cache s) codepoint = None
                                   then [Fetch (fetch_url codepoint)] else [])"
  proof (cases "cache_get (cache s) codepoint")
    case (Some cached)
    have "download_twemoji net codepoint s = Inr (Some cached, s)"
      using Some by (rule download_hit)
    with assms have "s1 = s" by simp
    moreover have "cache_get (cache s) codepoint \<noteq> None" using Some by simp
    ultimately show ?thesis by simp
  next
    case None
    show ?thesis
    proof (cases "net (trace s) (fetch_url codepoint)")
      case (Body data)
      with assms None show ?thesis by (auto simp: download_miss_body)
    next
      case URLError
      with assms None show ?thesis by (auto simp: download_miss_urlerror)
    next
      case (Raises e)
      with assms None show ?thesis by (simp add: download_miss_raises)
    qed
  qed
  then show "out s1 = out s"
    and "all_entries s1 = all_entries s"
    and "success_count s1 = success_count s"
    and "fail_count s1 = fail_count s"
    and "trace s1 = trace s @ (if cache_get (cache s) codepoint = None
                                then [Fetch (fetch_url codepoint)] else [])"
    by blast+
qed

lemma download_never_raises:
  assumes "never_raises net"
  shows "\<exists>png_data s1. download_twemoji net codepoint s = Inr (png_data, s1)"
  using assms
  by (auto simp: download_twemoji_def Let_def never_raises_def
      split: option.splits response.splits)

section \<open>Steps of the loop body\<close>

lemma resolve_keeps:
  "out (snd (resolve_bitmap raster png_data s1)) = out s1"
  "all_entries (snd (resolve_bitmap raster png_data s1)) = all_entries s1"
  "trace (snd (resolve_bitmap raster png_data s1)) = trace s1"
  "cache (snd (resolve_bitmap raster png_data s1)) = cache s1"
  by (simp_all add: resolve_bitmap_def Let_def)

lemma process_emoji_Inl:
  assumes "download_twemoji net (fst e) s = Inl x"
  shows "process_emoji net raster category e s = Inl x"
  using assms by (simp add: process_emoji_def Let_def)

lemma process_emoji_step:
  assumes "download_twemoji net (fst e) s = Inr (png_data, s1)"
  shows "\<exists>s'. process_emoji net raster category e s = Inr s'
     \<and> out s' = out s @ bitmap_lines (var_name_of (snd e)) (fst (resolve_bitmap raster png_data s1))
     \<and> all_entries s' = all_entries s @ [(fst e, snd e, var_name_of (snd e), category)]
     \<and> trace s' = trace s1 @ [Sleep]
     \<and> cache s' = cache s1
     \<and> success_count s' = success_count (snd (resolve_bitmap raster png_data s1))
     \<and> fail_count s' = fail_count (snd (resolve_bitmap raster png_data s1))"
  using assms download_Inr_fields(1,2) [OF assms]
  by (simp add: process_emoji_def Let_def case_prod_beta resolve_keeps)

lemma process_emoji_Inr_download:
  assumes "process_emoji net raster category e s = Inr s'"
  shows "\<exists>png_data s1. download_twemoji net (fst e) s = Inr (png_data, s1)"
proof (cases "download_twemoji net (fst e) s")
  case (Inl x)
  with assms show ?thesis by (simp add: process_emoji_Inl)
next
  case (Inr r)
  then show ?thesis by (cases r) simp
qed

lemma process_emoji_fields:
  assumes "process_emoji net raster category e s = Inr s'"
  shows "all_entries s' = all_entries s @ [(fst e, snd e, var_name_of (snd e), category)]"
    and "trace s' = trace s @ (if cache_get (cache s) (fst e) = None
                                then [Fetch (fetch_url (fst e))] else []) @ [Sleep]"
    and "\<exists>data. out s' = out s @ bitmap_lines (var_name_of (snd e)) data"
proof -
  from process_emoji_Inr_download [OF assms] obtain png_data s1
    where d: "download_twemoji net (fst e) s = Inr (png_data, s1)" by blast
  from process_emoji_step [OF d, of raster category] assms
  have st: "out s' = out s @ bitmap_lines (var_name_of (snd e)) (fst (resolve_bitmap raster png_data s1))"
    "all_entries s' = all_entries s @ [(fst e, snd e, var_name_of (snd e), category)]"
    "trace s' = trace s1 @ [Sleep]"
    by auto
  show "all_entries s' = all_entries s @ [(fst e, snd e, var_name_of (snd e), category)]"
    by (rule st(2))
  show "trace s' = trace s @ (if cache_get (cache s) (fst e) = None
                                then [Fetch (fetch_url (fst e))] else []) @ [Sleep]"
    by (simp add: st(3) download_Inr_fields(5) [OF d])
  show "\<exists>data. out s' = out s @ bitmap_lines (var_name_of (snd e)) data"
    using st(1) by blast
qed

section \<open>Completed loops\<close>

lemma process_emojis_Cons_Inr:
  "process_emojis net raster category (e # es) s = Inr s' \<longleftrightarrow>
     (\<exists>s1. process_emoji net raster category e s = Inr s1
           \<and> process_emojis net raster category es s1 = Inr s')"
  by (simp split: sum.splits)

lemma run_loop_Cons_Inr:
  "run_loop net raster (item # cfg) s = Inr s' \<longleftrightarrow>
     (\<exists>s1. process_category net raster item s = Inr s1 \<and> run_loop net raster cfg s1 = Inr s')"
  by (simp split: sum.splits)

lemma main_Inr:
  "main net raster cfg cache0 = Inr final \<longleftrightarrow>
     (\<exists>s. run_loop net raster cfg (initial_state cfg cache0) = Inr s
          \<and> final = s\<lparr>out := out s @ emoji_table (all_entries s)\<rparr>)"
  by (auto simp: main_def split: sum.splits)

lemma initial_state_fields:
  "cache (initial_state cfg cache0) = cache0"
  "trace (initial_state cfg cache0) = []"
  "out (initial_state cfg cache0) = header cfg"
  "all_entries (initial_state cfg cache0) = []"
  "success_count (initial_state cfg cache0) = 0"
  "fail_count (initial_state cfg cache0) = 0"
  by (simp_all add: initial_state_def)

lemma sleeps_Nil: "sleeps [] = 0"
  by (simp add: sleeps_def)

lemma process_emojis_entries:
  assumes "process_emojis net raster category es s = Inr s'"
  shows "all_entries s' =
     all_entries s @ map (\<lambda>(codepoint, shortcode).
                            (codepoint, shortcode, var_name_of shortcode, category)) es"
  using assms
proof (induction es arbitrary: s)
  case Nil
  then show ?case by simp
next
  case (Cons e es)
  from Cons.prems [unfolded process_emojis_Cons_Inr]
  obtain s1 where 1: "process_emoji net raster category e s = Inr s1"
    and 2: "process_emojis net raster category es s1 = Inr s'"
    by blast
  from Cons.IH [OF 2] process_emoji_fields(1) [OF 1]
  show ?case by (simp add: case_prod_beta)
qed

lemma process_category_entries:
  assumes "process_category net raster item s = Inr s'"
  shows "all_entries s' =
     all_entries s @ map (\<lambda>(codepoint, shortcode).
                            (codepoint, shortcode, var_name_of shortcode, fst item)) (snd item)"
  using process_emojis_entries [of net raster "fst item" "snd item" _ s'] assms
  by (simp add: process_category_def Let_def)

lemma run_loop_entries:
  assumes "run_loop net raster cfg s = Inr s'"
  shows "all_entries s' = all_entries s @ declared_entries cfg"
  using assms
proof (induction cfg arbitrary: s)
  case Nil
  then show ?case by (simp add: declared_entries_def)
next
  case (Cons item cfg)
  from Cons.prems [unfolded run_loop_Cons_Inr]
  obtain s1 where 1: "process_category net raster item s = Inr s1"
    and 2: "run_loop net raster cfg s1 = Inr s'"
    by blast
  from Cons.IH [OF 2] process_category_entries [OF 1]
  show ?case by (simp add: declared_entries_def case_prod_beta)
qed

lemma main_entries:
  assumes "main net raster cfg cache0 = Inr final"
  shows "all_entries final = declared_entries cfg"
  using assms run_loop_entries [of net raster cfg "initial_state cfg cache0"]
  by (auto simp: main_Inr initial_state_fields)

lemma main_out:
  assumes "main net raster cfg cache0 = Inr final"
  shows "\<exists>s. run_loop net raster cfg (initial_state cfg cache0) = Inr s
           \<and> out final = out s @ emoji_table (declared_entries cfg)"
  using assms run_loop_entries [of net raster cfg "initial_state cfg cache0"]
  by (auto simp: main_Inr initial_state_fields)

lemma process_emojis_sleeps:
  assumes "process_emojis net raster category es s = Inr s'"
  shows "sleeps (trace s') = sleeps (trace s) + length es"
  using assms
proof (induction es arbitrary: s)
  case Nil
  then show ?case by simp
next
  case (Cons e es)
  from Cons.prems [unfolded process_emojis_Cons_Inr]
  obtain s1 where 1: "process_emoji net raster category e s = Inr s1"
    and 2: "process_emojis net raster category es s1 = Inr s'"
    by blast
  have "sleeps (trace s1) = sleeps (trace s) + 1"
    by (simp add: process_emoji_fields(2) [OF 1] sleeps_def)
  with Cons.IH [OF 2] show ?case by simp
qed

lemma process_category_sleeps:
  assumes "process_category net raster item s = Inr s'"
  shows "sleeps (trace s') = sleeps (trace s) + length (snd item)"
  using process_emojis_sleeps [of net raster "fst item" "snd item" _ s'] assms
  by (simp add: process_category_def Let_def)

lemma run_loop_sleeps:
  assumes "run_loop net raster cfg s = Inr s'"
  shows "int (sleeps (trace s')) = int (sleeps (trace s)) + total_count cfg"
  using assms
proof (induction cfg arbitrary: s)
  case Nil
  then show ?case by (simp add: total_count_def)
next
  case (Cons item cfg)
  from Cons.prems [unfolded run_loop_Cons_Inr]
  obtain s1 where 1: "process_category net raster item s = Inr s1"
    and 2: "run_loop net raster cfg s1 = Inr s'"
    by blast
  from Cons.IH [OF 2] process_category_sleeps [OF 1]
  show ?case by (simp add: total_count_def)
qed

lemma main_sleeps:
  assumes "main net raster cfg cache0 = Inr final"
  shows "int (sleeps (trace final)) = total_count cfg"
  using assms run_loop_sleeps [of net raster cfg "initial_state cfg cache0"]
  by (auto simp: main_Inr initial_state_fields sleeps_Nil)

lemma length_declared_entries:
  "int (length (declared_entries cfg)) = total_count cfg"
  by (induction cfg) (simp_all add: declared_entries_def total_count_def case_prod_beta)

section \<open>Runs that complete\<close>

lemma process_emojis_never_raises:
  assumes "never_raises net"
  shows "\<exists>s'. process_emojis net raster category es s = Inr s'"
proof (induction es arbitrary: s)
  case Nil
  then show ?case by simp
next
  case (Cons e es)
  from download_never_raises [OF assms, of "fst e" s] obtain png_data s1
    where "download_twemoji net (fst e) s = Inr (png_data, s1)" by blast
  from process_emoji_step [OF this, of raster category] obtain s2
    where "process_emoji net raster category e s = Inr s2" by blast
  with Cons.IH [of s2] show ?case by simp
qed

lemma run_loop_never_raises:
  assumes "never_raises net"
  shows "\<exists>s'. run_loop net raster cfg s = Inr s'"
proof (induction cfg arbitrary: s)
  case Nil
  then show ?case by simp
next
  case (Cons item cfg)
  from process_emojis_never_raises [OF assms] obtain s1
    where "process_category net raster item s = Inr s1"
    unfolding process_category_def Let_def by blast
  with Cons.IH [of s1] show ?case by simp
qed

lemma main_never_raises:
  assumes "never_raises net"
  shows "\<exists>final. main net raster cfg cache0 = Inr final"
  using run_loop_never_raises [OF assms, of raster cfg "initial_state cfg cache0"]
  by (auto simp: main_Inr)

section \<open>Runs on a warm cache\<close>

lemma process_emoji_hit:
  assumes "cache_get (cache s) (fst e) \<noteq> None"
  shows "\<exists>s'. process_emoji net1 raster category e s = Inr s'
           \<and> process_emoji net2 raster category e s = Inr s'
           \<and> cache s' = cache s
           \<and> filter (\<lambda>ev. ev \<noteq> Sleep) (trace s') = filter (\<lambda>ev. ev \<noteq> Sleep) (trace s)"
proof -
  from assms obtain cached where c: "cache_get (cache s) (fst e) = Some cached" by blast
  have d: "download_twemoji net (fst e) s = Inr (Some cached, s)" for net
    using c by (rule download_hit)
  have same: "process_emoji net1 raster category e s = process_emoji net2 raster category e s"
    by (simp add: process_emoji_def d)
  from process_emoji_step [OF d, of net1 raster category] obtain s'
    where 1: "process_emoji net1 raster category e s = Inr s'"
      and t: "trace s' = trace s @ [Sleep]" and c': "cache s' = cache s"
    by blast
  from 1 same have 2: "process_emoji net2 raster category e s = Inr s'" by simp
  have "filter (\<lambda>ev. ev \<noteq> Sleep) (trace s') = filter (\<lambda>ev. ev \<noteq> Sleep) (trace s)"
    by (simp add: t)
  with 1 2 c' show ?thesis by blast
qed

lemma process_emojis_warm:
  assumes "\<forall>e \<in> set es. cache_get (cache s) (fst e) \<noteq> None"
  shows "\<exists>s'. process_emojis net1 raster category es s = Inr s'
           \<and> process_emojis net2 raster category es s = Inr s'
           \<and> cache s' = cache s
           \<and> filter (\<lambda>ev. ev \<noteq> Sleep) (trace s') = filter (\<lambda>ev. ev \<noteq> Sleep) (trace s)"
  using assms
proof (induction es arbitrary: s)
  case Nil
  then show ?case by simp
next
  case (Cons e es)
  have hit: "cache_get (cache s) (fst e) \<noteq> None" using Cons.prems by simp
  from process_emoji_hit [OF hit, of net1 raster category net2] obtain s1
    where 1: "process_emoji net1 raster category e s = Inr s1"
      and 2: "process_emoji net2 raster category e s = Inr s1"
      and c1: "cache s1 = cache s"
      and t1: "filter (\<lambda>ev. ev \<noteq> Sleep) (trace s1) = filter (\<lambda>ev. ev \<noteq> Sleep) (trace s)"
    by blast
  have "\<forall>e \<in> set es. cache_get (cache s1) (fst e) \<noteq> None"
    using Cons.prems c1 by simp
  from Cons.IH [OF this] obtain s'
    where "process_emojis net1 raster category es s1 = Inr s'"
      and "process_emojis net2 raster category es s1 = Inr s'"
      and "cache s' = cache s1"
      and "filter (\<lambda>ev. ev \<noteq> Sleep) (trace s') = filter (\<lambda>ev. ev \<noteq> Sleep) (trace s1)"
    by blast
  with 1 2 c1 t1 show ?case by simp
qed

lemma process_emojis_warm_from:
  assumes "\<forall>e \<in> set es. cache_get (cache s) (fst e) \<noteq> None"
    and "cache s = c" and "trace s = t"
  shows "\<exists>s'. process_emojis net1 raster category es s = Inr s'
           \<and> process_emojis net2 raster category es s = Inr s'
           \<and> cache s' = c
           \<and> filter (\<lambda>ev. ev \<noteq> Sleep) (trace s') = filter (\<lambda>ev. ev \<noteq> Sleep) t"
  using process_emojis_warm [OF assms(1), of net1 raster category net2] assms(2,3)
  by simp

lemma process_category_warm:
  assumes "\<forall>e \<in> set (snd item). cache_get (cache s) (fst e) \<noteq> None"
  shows "\<exists>s'. process_category net1 raster item s = Inr s'
           \<and> process_category net2 raster item s = Inr s'
           \<and> cache s' = cache s
           \<and> filter (\<lambda>ev. ev \<noteq> Sleep) (trace s') = filter (\<lambda>ev. ev \<noteq> Sleep) (trace s)"
  unfolding process_category_def Let_def
  by (rule process_emojis_warm_from) (use assms in simp_all)

lemma run_loop_warm:
  assumes "warm (cache s) cfg"
  shows "\<exists>s'. run_loop net1 raster cfg s = Inr s'
           \<and> run_loop net2 raster cfg s = Inr s'
           \<and> cache s' = cache s
           \<and> filter (\<lambda>ev. ev \<noteq> Sleep) (trace s') = filter (\<lambda>ev. ev \<noteq> Sleep) (trace s)"
  using assms
proof (induction cfg arbitrary: s)
  case Nil
  then show ?case by simp
next
  case (Cons item cfg)
  have hit: "\<forall>e \<in> set (snd item). cache_get (cache s) (fst e) \<noteq> None"
    using Cons.prems by (simp add: warm_def)
  from process_category_warm [OF hit, of net1 raster net2] obtain s1
    where 1: "process_category net1 raster item s = Inr s1"
      and 2: "process_category net2 raster item s = Inr s1"
      and c1: "cache s1 = cache s"
      and t1: "filter (\<lambda>ev. ev \<noteq> Sleep) (trace s1) = filter (\<lambda>ev. ev \<noteq> Sleep) (trace s)"
    by blast
  have "warm (cache s1) cfg" using Cons.prems c1 by (simp add: warm_def)
  from Cons.IH [OF this] obtain s'
    where "run_loop net1 raster cfg s1 = Inr s'"
      and "run_loop net2 raster cfg s1 = Inr s'"
      and "cache s' = cache s1"
      and "filter (\<lambda>ev. ev \<noteq> Sleep) (trace s') = filter (\<lambda>ev. ev \<noteq> Sleep) (trace s1)"
    by blast
  with 1 2 c1 t1 show ?case by simp
qed

lemma main_warm:
  assumes "warm cache0 cfg"
  shows "\<exists>final. main net1 raster cfg cache0 = Inr final
           \<and> main net2 raster cfg cache0 = Inr final
           \<and> cache final = cache0
           \<and> filter (\<lambda>ev. ev \<noteq> Sleep) (trace final) = []"
proof -
  have w: "warm (cache (initial_state cfg cache0)) cfg"
    using assms by (simp add: initial_state_fields)
  from run_loop_warm [OF w, of net1 raster net2] obtain s
    where "run_loop net1 raster cfg (initial_state cfg cache0) = Inr s"
      and "run_loop net2 raster cfg (initial_state cfg cache0) = Inr s"
      and "cache s = cache0"
      and "filter (\<lambda>ev. ev \<noteq> Sleep) (trace s) = []"
    by (auto simp: initial_state_fields)
  then show ?thesis by (simp add: main_def)
qed

section \<open>Evaluation of the formatting on sample values\<close>

lemma filename_1f600: "codepoint_to_twemoji_filename 0x1F600 = ''1f600.png''"
  by (simp add: codepoint_to_twemoji_filename_def format_x_def hex_digits.simps hex_digit_def)

lemma var_name_grin: "var_name_of ''grin'' = ''EMOJI_BMP_GRIN''"
  by (simp add: var_name_of_def upper_def upper_char_def)

section \<open>The placeholder bitmap\<close>

lemma generate_placeholder_eq:
  "generate_placeholder sz = map (\<lambda>c. if c = CHR ''1'' then 0xFEA0 else 0) (concat pattern)"
  by (simp add: generate_placeholder_def Let_def rgb_to_rgb565_def map_concat comp_def)

lemma length_pattern: "length (concat pattern) = 144"
  by (simp add: pattern_def)

lemma length_generate_placeholder: "length (generate_placeholder sz) = 144"
  by (simp add: generate_placeholder_eq length_pattern)

lemma generate_placeholder_values:
  "v \<in> set (generate_placeholder sz) \<Longrightarrow> v = 0xFEA0 \<or> v = 0"
  by (auto simp: generate_placeholder_eq)

lemma square_144:
  fixes sz :: int
  assumes "0 \<le> sz"
  shows "sz * sz = 144 \<longleftrightarrow> sz = 12"
proof
  assume "sz * sz = 144"
  then have "sz\<^sup>2 = (12::int)\<^sup>2" by (simp add: power2_eq_square)
  moreover note assms
  moreover have "(0::int) \<le> 12" by simp
  ultimately show "sz = 12" by (rule power2_eq_imp_eq)
next
  assume "sz = 12" then show "sz * sz = 144" by simp
qed

section \<open>Shape of the bitmaps\<close>

lemma concat_slices:
  "concat (map (\<lambda>k. take n (drop (n * k) xs)) [0..<m]) = take (n * m) xs"
proof (induction m)
  case 0
  then show ?case by simp
next
  case (Suc m)
  have "concat (map (\<lambda>k. take n (drop (n * k) xs)) [0..<Suc m])
          = concat (map (\<lambda>k. take n (drop (n * k) xs)) [0..<m]) @ take n (drop (n * m) xs)"
    by simp
  also have "\<dots> = take (n * m) xs @ take n (drop (n * m) xs)"
    by (simp only: Suc.IH)
  also have "\<dots> = take (n * m + n) xs"
    by (simp only: take_add)
  also have "n * m + n = n * Suc m" by simp
  finally show ?case .
qed

lemma rows_cover:
  assumes "length data = 144"
  shows "concat (map (row_slice data) (map (\<lambda>k. 12 * k) [0..<12])) = data"
proof -
  have "concat (map (row_slice data) (map (\<lambda>k. 12 * k) [0..<12]))
          = concat (map (\<lambda>k. take 12 (drop (12 * k) data)) [0..<12])"
    by (simp only: map_map comp_def row_slice_def)
  also have "\<dots> = take (12 * 12) data" by (rule concat_slices)
  finally show ?thesis using assms by simp
qed

lemma process_well_formed:
  assumes ok: "raster_ok raster"
    and res: "process_twemoji_to_rgb565 raster png_data 12 = Some data"
  shows "length data = 144 \<and> (\<forall>v \<in> set data. 0 \<le> v \<and> v \<le> 0xFFFF)"
proof -
  from res obtain pixels where px: "raster png_data 12 = Some pixels"
    and data: "data = map (\<lambda>(r, g, b). rgb_to_rgb565 r g b) pixels"
    by (auto simp: process_twemoji_to_rgb565_def split: option.splits)
  from ok px have img: "rgb_image 12 pixels" by (auto simp: raster_ok_def)
  then have "int (length pixels) = 144" by (simp add: rgb_image_def)
  then have len: "length data = 144" by (simp add: data)
  have "0 \<le> v \<and> v \<le> 0xFFFF" if "v \<in> set data" for v
  proof -
    from that data obtain r g b where "(r, g, b) \<in> set pixels" and v: "v = rgb_to_rgb565 r g b"
      by auto
    with img have "0 \<le> r \<and> r \<le> 255 \<and> 0 \<le> g \<and> g \<le> 255 \<and> 0 \<le> b \<and> b \<le> 255"
      by (auto simp: rgb_image_def list_all_iff)
    then show ?thesis using rgb565_range [of r g b] v by simp
  qed
  with len show ?thesis by blast
qed

lemma resolve_cases:
  "fst (resolve_bitmap raster png_data s) = generate_placeholder 12
   \<or> (\<exists>png. process_twemoji_to_rgb565 raster png 12
                 = Some (fst (resolve_bitmap raster png_data s)))"
  by (auto simp: resolve_bitmap_def Let_def truthy_def split: option.splits)

lemma resolve_well_formed:
  assumes "raster_ok raster"
  shows "length (fst (resolve_bitmap raster png_data s)) = 144
         \<and> (\<forall>v \<in> set (fst (resolve_bitmap raster png_data s)). 0 \<le> v \<and> v \<le> 0xFFFF)"
proof -
  let ?data = "fst (resolve_bitmap raster png_data s)"
  from resolve_cases [of raster png_data s] show ?thesis
  proof
    assume ph: "?data = generate_placeholder 12"
    have "0 \<le> v \<and> v \<le> 0xFFFF" if "v \<in> set (generate_placeholder 12)" for v
      using generate_placeholder_values [OF that] by auto
    then show ?thesis by (simp add: ph length_generate_placeholder)
  next
    assume "\<exists>png. process_twemoji_to_rgb565 raster png 12 = Some ?data"
    then obtain png where "process_twemoji_to_rgb565 raster png 12 = Some ?data" ..
    from process_well_formed [OF assms this] show ?thesis .
  qed
qed

section \<open>Choice of the bitmap\<close>

lemma resolve_failure:
  assumes "png_data = None \<or> process_twemoji_to_rgb565 raster (the png_data) 12 = None"
  shows "resolve_bitmap raster png_data s1 =
           (generate_placeholder 12, s1\<lparr>fail_count := fail_count s1 + 1\<rparr>)"
  using assms by (auto simp: resolve_bitmap_def Let_def truthy_def)

lemma resolve_success:
  assumes "png \<noteq> []"
    and "process_twemoji_to_rgb565 raster png 12 = Some data" "data \<noteq> []"
  shows "resolve_bitmap raster (Some png) s1 =
           (data, s1\<lparr>success_count := success_count s1 + 1\<rparr>)"
  using assms by (auto simp: resolve_bitmap_def Let_def truthy_def)

lemma replicate_numeral_unfold:
  "replicate (numeral k) x = x # replicate (pred_numeral k) x"
  by (simp add: numeral_eq_Suc)

lemma table_row_sample:
  \<open>table_row (0x1F600, ''grin'', ''EMOJI_BMP_GRIN'', ''FACES'')
     = ''    { 0x1F600, "grin", EMOJI_BMP_GRIN, EmojiCategory::FACES },''\<close>
  by (simp add: table_row_def format_0X_def zero_pad_def hex_digits.simps hex_digit_def)

lemma table_row_padded_sample:
  \<open>table_row (0x2665, ''hearts'', ''EMOJI_BMP_HEARTS'', ''ACTIVITIES'')
     = ''    { 0x02665, "hearts", EMOJI_BMP_HEARTS, EmojiCategory::ACTIVITIES },''\<close>
  by (simp add: table_row_def format_0X_def zero_pad_def hex_digits.simps hex_digit_def
      replicate_numeral_unfold)

lemma row_line_sample:
  "row_line 0 [0, 0xFEA0] = ''    0x0000, 0xFEA0,''"
  "row_line 132 [0, 0xFEA0] = ''    0x0000, 0xFEA0''"
  by (simp_all add: row_line_def format_0X_def zero_pad_def hex_digits.simps hex_digit_def
      replicate_numeral_unfold)

lemma count_line_sample:
  "emoji_table [] ! 2 = ''const int EMOJI_COUNT = 0;''"
  "format_d 1013 = ''1013''"
  by (simp_all add: emoji_table_def format_d_def dec_digits.simps)

section \<open>The printed placeholder\<close>

lemma format_0X_yellow: "format_0X 4 0xFEA0 = ''FEA0''"
  by (simp add: format_0X_def zero_pad_def hex_digits.simps hex_digit_def)

lemma format_0X_black: "format_0X 4 0 = ''0000''"
  by (simp add: format_0X_def zero_pad_def hex_digits.simps hex_digit_def
      replicate_numeral_unfold)

lemma row_offsets:
  "map (\<lambda>k. 12 * k) [0..<12] = [0, 12, 24, 36, 48, 60, 72, 84, 96, 108, 120, 132::nat]"
  by code_simp

lemma placeholder_slices:
  "map (row_slice (generate_placeholder sz)) (map (\<lambda>k. 12 * k) [0..<12])
     = map (map (\<lambda>c. if c = CHR ''1'' then 0xFEA0 else 0)) pattern"
  by (simp add: row_offsets generate_placeholder_eq pattern_def row_slice_def)

lemma placeholder_lines:
  "bitmap_lines var_name (generate_placeholder sz) =
     [''static const uint16_t '' @ var_name @ ''[144] PROGMEM = {'',
      ''    0x0000, 0x0000, 0x0000, 0xFEA0, 0xFEA0, 0xFEA0, 0xFEA0, 0xFEA0, 0xFEA0, 0x0000, 0x0000, 0x0000,'',
      ''    0x0000, 0x0000, 0xFEA0, 0xFEA0, 0xFEA0, 0xFEA0, 0xFEA0, 0xFEA0, 0xFEA0, 0xFEA0, 0x0000, 0x0000,'',
      ''    0x0000, 0xFEA0, 0xFEA0, 0xFEA0, 0x0000, 0x0000, 0x0000, 0x0000, 0xFEA0, 0xFEA0, 0xFEA0, 0x0000,'',
      ''    0x0000, 0xFEA0, 0xFEA0, 0xFEA0, 0x0000, 0x0000, 0x0000, 0x0000, 0xFEA0, 0xFEA0, 0xFEA0, 0x0000,'',
      ''    0x0000, 0x0000, 0x0000, 0x0000, 0x0000, 0x0000, 0x0000, 0xFEA0, 0xFEA0, 0xFEA0, 0xFEA0, 0x0000,'',
      ''    0x0000, 0x0000, 0x0000, 0x0000, 0x0000, 0x0000, 0xFEA0, 0xFEA0, 0xFEA0, 0xFEA0, 0x0000, 0x0000,'',
      ''    0x0000, 0x0000, 0x0000, 0x0000, 0x0000, 0xFEA0, 0xFEA0, 0xFEA0, 0xFEA0, 0x0000, 0x0000, 0x0000,'',
      ''    0x0000, 0x0000, 0x0000, 0x0000, 0x0000, 0xFEA0, 0xFEA0, 0xFEA0, 0x0000, 0x0000, 0x0000, 0x0000,'',
      ''    0x0000, 0x0000, 0x0000, 0x0000, 0x0000, 0xFEA0, 0xFEA0, 0xFEA0, 0x0000, 0x0000, 0x0000, 0x0000,'',
      ''    0x0000, 0x0000, 0x0000, 0x0000, 0x0000, 0x0000, 0x0000, 0x0000, 0x0000, 0x0000, 0x0000, 0x0000,'',
      ''    0x0000, 0x0000, 0x0000, 0x0000, 0x0000, 0xFEA0, 0xFEA0, 0xFEA0, 0x0000, 0x0000, 0x0000, 0x0000,'',
      ''    0x0000, 0x0000, 0x0000, 0x0000, 0x0000, 0xFEA0, 0xFEA0, 0xFEA0, 0x0000, 0x0000, 0x0000, 0x0000'',
      ''};'', '''']"
  by (simp add: bitmap_lines_def row_offsets generate_placeholder_eq pattern_def row_slice_def
      row_line_def format_0X_yellow format_0X_black)

section \<open>The text of a completed run\<close>

lemma bitmap_lines_head:
  "\<exists>rest. bitmap_lines var_name data = bitmap_head var_name # rest"
  by (simp add: bitmap_lines_def bitmap_head_def)

lemma process_emojis_out:
  assumes "process_emojis net raster category es s = Inr s'"
  shows "\<exists>body. out s' = out s @ body
           \<and> (\<forall>e \<in> set es. bitmap_head (var_name_of (snd e)) \<in> set body)"
  using assms
proof (induction es arbitrary: s)
  case Nil
  then show ?case by simp
next
  case (Cons e es)
  from Cons.prems [unfolded process_emojis_Cons_Inr]
  obtain s1 where 1: "process_emoji net raster category e s = Inr s1"
    and 2: "process_emojis net raster category es s1 = Inr s'"
    by blast
  from process_emoji_fields(3) [OF 1] bitmap_lines_head obtain rest
    where o1: "out s1 = out s @ bitmap_head (var_name_of (snd e)) # rest"
    by metis
  from Cons.IH [OF 2] obtain body where o2: "out s' = out s1 @ body"
    and m: "\<forall>e \<in> set es. bitmap_head (var_name_of (snd e)) \<in> set body"
    by blast
  have "out s' = out s @ (bitmap_head (var_name_of (snd e)) # rest @ body)"
    by (simp add: o1 o2)
  moreover have "\<forall>x \<in> set (e # es).
      bitmap_head (var_name_of (snd x)) \<in> set (bitmap_head (var_name_of (snd e)) # rest @ body)"
    using m by simp
  ultimately show ?case by blast
qed

lemma process_category_out:
  assumes "process_category net raster item s = Inr s'"
  shows "\<exists>body. out s' = out s @ body
           \<and> (\<forall>e \<in> set (snd item). bitmap_head (var_name_of (snd e)) \<in> set body)"
proof -
  let ?s1 = "s\<lparr>out := out s @
                 [''// ============ '' @ fst item @ '' ('' @ format_d (int (length (snd item)))
                    @ '' emoji) ============'', '''']\<rparr>"
  have "process_emojis net raster (fst item) (snd item) ?s1 = Inr s'"
    using assms by (simp add: process_category_def Let_def)
  from process_emojis_out [OF this] obtain body where o: "out s' = out ?s1 @ body"
    and m: "\<forall>e \<in> set (snd item). bitmap_head (var_name_of (snd e)) \<in> set body"
    by blast
  have "out s' = out s @ ([''// ============ '' @ fst item @ '' (''
                             @ format_d (int (length (snd item)))
                             @ '' emoji) ============'', ''''] @ body)"
    using o by simp
  moreover have "\<forall>e \<in> set (snd item). bitmap_head (var_name_of (snd e))
      \<in> set ([''// ============ '' @ fst item @ '' ('' @ format_d (int (length (snd item)))
                 @ '' emoji) ============'', ''''] @ body)"
    using m by simp
  ultimately show ?thesis by blast
qed

lemma run_loop_out:
  assumes "run_loop net raster cfg s = Inr s'"
  shows "\<exists>body. out s' = out s @ body
           \<and> (\<forall>item \<in> set cfg. \<forall>e \<in> set (snd item).
                 bitmap_head (var_name_of (snd e)) \<in> set body)"
  using assms
proof (induction cfg arbitrary: s)
  case Nil
  then show ?case by simp
next
  case (Cons item cfg)
  from Cons.prems [unfolded run_loop_Cons_Inr]
  obtain s1 where 1: "process_category net raster item s = Inr s1"
    and 2: "run_loop net raster cfg s1 = Inr s'"
    by blast
  from process_category_out [OF 1] obtain b1 where o1: "out s1 = out s @ b1"
    and m1: "\<forall>e \<in> set (snd item). bitmap_head (var_name_of (snd e)) \<in> set b1"
    by blast
  from Cons.IH [OF 2] obtain b2 where o2: "out s' = out s1 @ b2"
    and m2: "\<forall>item \<in> set cfg. \<forall>e \<in> set (snd item).
                 bitmap_head (var_name_of (snd e)) \<in> set b2"
    by blast
  have "out s' = out s @ (b1 @ b2)" by (simp add: o1 o2)
  moreover have "\<forall>i \<in> set (item # cfg). \<forall>e \<in> set (snd i).
                 bitmap_head (var_name_of (snd e)) \<in> set (b1 @ b2)"
    using m1 m2 by auto
  ultimately show ?case by blast
qed

lemma main_text:
  assumes "main net raster cfg cache0 = Inr final"
  shows "\<exists>body. out final = header cfg @ body @ emoji_table (declared_entries cfg)
           \<and> (\<forall>item \<in> set cfg. \<forall>e \<in> set (snd item).
                 bitmap_head (var_name_of (snd e)) \<in> set body)"
proof -
  from main_out [OF assms] obtain s
    where r: "run_loop net raster cfg (initial_state cfg cache0) = Inr s"
      and o: "out final = out s @ emoji_table (declared_entries cfg)"
    by blast
  from run_loop_out [OF r] obtain body where "out s = header cfg @ body"
    and "\<forall>item \<in> set cfg. \<forall>e \<in> set (snd item).
                 bitmap_head (var_name_of (snd e)) \<in> set body"
    by (auto simp: initial_state_fields)
  with o show ?thesis by auto
qed

lemma emoji_table_text:
  \<open>emoji_table entries =
     [''// ============ EMOJI TABLE ============'',
      '''',
      ''const int EMOJI_COUNT = '' @ format_d (int (length entries)) @ '';'',
      '''',
      ''const EmojiEntry EMOJI_TABLE[EMOJI_COUNT] PROGMEM = {'']
     @ map (\<lambda>(codepoint, shortcode, var_name, category).
              ''    { 0x'' @ format_0X 5 codepoint @ '', "'' @ shortcode @ ''", '' @ var_name
              @ '', EmojiCategory::'' @ category @ '' },'') entries
     @ [''};'', '''', ''#endif // MESHBERRY_EMOJI_DATA_H'']\<close>
proof -
  have \<open>table_row = (\<lambda>(codepoint, shortcode, var_name, category).
              ''    { 0x'' @ format_0X 5 codepoint @ '', "'' @ shortcode @ ''", '' @ var_name
              @ '', EmojiCategory::'' @ category @ '' },'')\<close>
    by (auto simp: fun_eq_iff table_row_def)
  then show ?thesis by (simp add: emoji_table_def)
qed

lemma table_row_text:
  \<open>table_row (codepoint, shortcode, var_name, category) =
     ''    { 0x'' @ format_0X 5 codepoint @ '', "'' @ shortcode @ ''", '' @ var_name
     @ '', EmojiCategory::'' @ category @ '' },''\<close>
  by (simp add: table_row_def)

lemma table_row_in_table:
  "entry \<in> set entries \<Longrightarrow> table_row entry \<in> set (emoji_table entries)"
  by (simp add: emoji_table_def)

lemma drop_suffix_len:
  "length ys = n \<Longrightarrow> drop (length (xs @ ys) - n) (xs @ ys) = ys"
  by simp

lemma drop_to_suffix: "drop (length (xs @ ys) - length ys) (xs @ ys) = ys"
  by simp

section \<open>Entries of the table\<close>

lemma entry_ids:
  "map (\<lambda>(codepoint, shortcode, var_name, category). (codepoint, shortcode))
     (map (\<lambda>(codepoint, shortcode).
             (codepoint, shortcode, var_name_of shortcode, category)) emojis) = emojis"
  by (induction emojis) auto

lemma declared_entries_Cons:
  "declared_entries ((category, emojis) # cfg) =
     map (\<lambda>(codepoint, shortcode).
            (codepoint, shortcode, var_name_of shortcode, category)) emojis
     @ declared_entries cfg"
  by (simp add: declared_entries_def)

lemma declared_entries_Nil: "declared_entries [] = []"
  by (simp add: declared_entries_def)

lemma declared_entries_ids:
  "map (\<lambda>(codepoint, shortcode, var_name, category). (codepoint, shortcode)) (declared_entries cfg)
     = concat (map snd cfg)"
proof (induction cfg)
  case Nil
  then show ?case by (simp add: declared_entries_def)
next
  case (Cons item cfg)
  obtain category emojis where item: "item = (category, emojis)" by (cases item)
  show ?case
    unfolding item declared_entries_Cons
    by (simp only: map_append entry_ids Cons.IH) simp
qed

lemma declared_entry_mem:
  assumes "(category, emojis) \<in> set cfg" and "(codepoint, shortcode) \<in> set emojis"
  shows "(codepoint, shortcode, var_name_of shortcode, category) \<in> set (declared_entries cfg)"
  using assms by (force simp: declared_entries_def)

lemma only_sleeps:
  assumes "sleeps evs = 1" and "filter (\<lambda>ev. ev \<noteq> Sleep) evs = []"
  shows "evs = [Sleep]"
proof -
  from assms(2) have all: "\<forall>ev \<in> set evs. ev = Sleep"
    by (simp add: filter_empty_conv)
  then have "filter (\<lambda>ev. ev = Sleep) evs = evs" by (simp add: filter_id_conv)
  with assms(1) have "length evs = 1" by (simp add: sleeps_def)
  then obtain ev where "evs = [ev]" by (cases evs) auto
  with all show ?thesis by simp
qed

lemma main_single:
  "main net raster [(category, [e])] cache0 =
     (case process_emoji net raster category e
             ((initial_state [(category, [e])] cache0)
                \<lparr>out := header [(category, [e])]
                   @ [''// ============ '' @ category @ '' ('' @ format_d 1
                        @ '' emoji) ============'', '''']\<rparr>) of
        Inl x \<Rightarrow> Inl x
      | Inr s' \<Rightarrow> Inr (s'\<lparr>out := out s' @ emoji_table (all_entries s')\<rparr>))"
  by (simp add: main_def process_category_def Let_def initial_state_fields split: sum.splits)

section \<open>The fetch policy\<close>

text \<open>
  What \<open>download_twemoji\<close> does in each case. A file in the cache is returned with
  the state unchanged, so without a request. On a miss exactly one request is made: a
  body is stored in the cache under the code point and returned; a caught error gives
  \<open>None\<close> with the cache unchanged; any other exception leaves the call.
\<close>

lemma download_cases:
  "(cache_get (cache s) codepoint = Some cached \<longrightarrow>
      download_twemoji net codepoint s = Inr (Some cached, s))
   \<and> (cache_get (cache s) codepoint = None
        \<and> net (trace s) (fetch_url codepoint) = Body data \<longrightarrow>
      download_twemoji net codepoint s =
        Inr (Some data, s\<lparr>trace := trace s @ [Fetch (fetch_url codepoint)],
                           cache := cache_put (cache s) codepoint data\<rparr>))
   \<and> (cache_get (cache s) codepoint = None
        \<and> net (trace s) (fetch_url codepoint) = URLError \<longrightarrow>
      download_twemoji net codepoint s =
        Inr (None, s\<lparr>trace := trace s @ [Fetch (fetch_url codepoint)]\<rparr>))
   \<and> (cache_get (cache s) codepoint = None
        \<and> net (trace s) (fetch_url codepoint) = Raises e \<longrightarrow>
      download_twemoji net codepoint s = Inl e)"
  by (simp add: download_hit download_miss_body download_miss_urlerror download_miss_raises)

text \<open>
  Claim C8 says that a failed retrieval makes the call return failure. The function's
  own description is ``returns image bytes or None'', and its \<open>except\<close> clause turns
  \<^verbatim>\<open>URLError\<close> and \<^verbatim>\<open>HTTPError\<close> into \<^verbatim>\<open>None\<close>; but a retrieval that fails while the
  response is read raises an exception the clause does not name. For a code point that is
  not in the cache and a request whose read times out, the call does not return: the
  exception leaves \<open>download_twemoji\<close>, and the run of \<open>main\<close> over that code point
  ends with it, before any table is printed.
\<close>

theorem download_twemoji_read_timeout_escapes:
  "download_twemoji (\<lambda>h u. Raises TimeoutError) 0x1F600 (initial_state [] Map.empty)
     = Inl TimeoutError
   \<and> main (\<lambda>h u. Raises TimeoutError) (\<lambda>png sz. None) [(''FACES'', [(0x1F600, ''grin'')])]
        Map.empty = Inl TimeoutError"
proof
  have miss: "cache_get Map.empty 0x1F600 = None"
    by (simp add: cache_get_def)
  show "download_twemoji (\<lambda>h u. Raises TimeoutError) 0x1F600 (initial_state [] Map.empty)
     = Inl TimeoutError"
    by (rule download_miss_raises) (simp_all add: miss initial_state_fields)
  have "process_emoji (\<lambda>h u. Raises TimeoutError) (\<lambda>png sz. None) ''FACES'' (0x1F600, ''grin'') s
          = Inl TimeoutError" if "cache s = Map.empty" for s :: state
  proof (rule process_emoji_Inl)
    show "download_twemoji (\<lambda>h u. Raises TimeoutError) (fst (0x1F600, ''grin'')) s
            = Inl TimeoutError"
      by (rule download_miss_raises) (simp_all add: miss that)
  qed
  then show "main (\<lambda>h u. Raises TimeoutError) (\<lambda>png sz. None) [(''FACES'', [(0x1F600, ''grin'')])]
        Map.empty = Inl TimeoutError"
    by (simp add: main_def process_category_def Let_def initial_state_fields)
qed

section \<open>The cache round trip\<close>


section \<open>The placeholder generator\<close>

text \<open>
  Claim C10. \<open>generate_placeholder\<close> ignores its size argument: for every value of the
  argument it returns the same sequence of 144 values, the 12 by 12 question-mark pattern
  with \<open>0xFEA0\<close> (yellow) for a \<open>1\<close> and \<open>0\<close> (black) for a \<open>0\<close>. For a side length
  (a non-negative size) the output has \<open>size \<times> size\<close> values exactly when the size is 12.
\<close>

theorem generate_placeholder_ignores_size:
  "generate_placeholder sz = generate_placeholder 12
   \<and> generate_placeholder sz = map (\<lambda>c. if c = CHR ''1'' then 0xFEA0 else 0) (concat pattern)
   \<and> length (generate_placeholder sz) = 144
   \<and> (0 \<le> sz \<longrightarrow> (int (length (generate_placeholder sz)) = sz * sz) = (sz = 12))"
proof -
  have "0 \<le> sz \<longrightarrow> (int (length (generate_placeholder sz)) = sz * sz) = (sz = 12)"
    using square_144 [of sz] by (auto simp: length_generate_placeholder)
  then show ?thesis
    by (simp add: generate_placeholder_eq length_pattern)
qed

theorem generate_placeholder_ignores_size_witness:
  "(0::int) \<le> 5 \<and> length (generate_placeholder 5) = 144
   \<and> int (length (generate_placeholder 5)) \<noteq> 5 * 5"
proof -
  from generate_placeholder_ignores_size [of 5]
  have "length (generate_placeholder 5) = 144
        \<and> ((0::int) \<le> 5 \<longrightarrow> (int (length (generate_placeholder 5)) = 5 * 5) = ((5::int) = 12))"
    by blast
  then show ?thesis by simp
qed

section \<open>Shape of every emitted bitmap\<close>

text \<open>
  Claim C7. Every bitmap the generator emits has exactly \<open>12 \<times> 12 = 144\<close> values, each
  in \<open>0..0xFFFF\<close>: the result of \<open>process_twemoji_to_rgb565\<close> at size 12 (for a
  rasterizer that returns \<open>size \<times> size\<close> pixels with 8-bit channels), the result of
  \<open>generate_placeholder\<close>, and hence the bitmap chosen whatever the fetch returned; the
  twelve printed rows together are exactly these 144 values, and every completed step of
  the loop prints such a bitmap.
\<close>

theorem emitted_bitmaps_well_formed:
  assumes "raster_ok raster"
  shows "(process_twemoji_to_rgb565 raster png 12 = Some data \<longrightarrow>
            length data = 144 \<and> (\<forall>v \<in> set data. 0 \<le> v \<and> v \<le> 0xFFFF))
         \<and> length (generate_placeholder sz) = 144
         \<and> (\<forall>v \<in> set (generate_placeholder sz). 0 \<le> v \<and> v \<le> 0xFFFF)
         \<and> length (fst (resolve_bitmap raster png_data s)) = 144
         \<and> (\<forall>v \<in> set (fst (resolve_bitmap raster png_data s)). 0 \<le> v \<and> v \<le> 0xFFFF)
         \<and> concat (map (row_slice (fst (resolve_bitmap raster png_data s)))
                        (map (\<lambda>k. 12 * k) [0..<12]))
             = fst (resolve_bitmap raster png_data s)
         \<and> (process_emoji net raster category e s = Inr s' \<longrightarrow>
              (\<exists>bitmap. length bitmap = 144 \<and> (\<forall>v \<in> set bitmap. 0 \<le> v \<and> v \<le> 0xFFFF)
                 \<and> out s' = out s @ bitmap_lines (var_name_of (snd e)) bitmap))"
proof -
  have p: "process_twemoji_to_rgb565 raster png 12 = Some data \<longrightarrow>
            length data = 144 \<and> (\<forall>v \<in> set data. 0 \<le> v \<and> v \<le> 0xFFFF)"
    using process_well_formed [OF assms] by blast
  have "0 \<le> v \<and> v \<le> 0xFFFF" if "v \<in> set (generate_placeholder sz)" for v
    using generate_placeholder_values [OF that] by auto
  then have g: "\<forall>v \<in> set (generate_placeholder sz). 0 \<le> v \<and> v \<le> 0xFFFF"
    by blast
  note r = resolve_well_formed [OF assms, of png_data s]
  from r have c: "concat (map (row_slice (fst (resolve_bitmap raster png_data s)))
                        (map (\<lambda>k. 12 * k) [0..<12]))
             = fst (resolve_bitmap raster png_data s)"
    by (intro rows_cover) simp
  have st: "process_emoji net raster category e s = Inr s' \<longrightarrow>
              (\<exists>bitmap. length bitmap = 144 \<and> (\<forall>v \<in> set bitmap. 0 \<le> v \<and> v \<le> 0xFFFF)
                 \<and> out s' = out s @ bitmap_lines (var_name_of (snd e)) bitmap)"
  proof
    assume a: "process_emoji net raster category e s = Inr s'"
    from process_emoji_Inr_download [OF a] obtain pd s1
      where d: "download_twemoji net (fst e) s = Inr (pd, s1)" by blast
    from process_emoji_step [OF d, of raster category] a
    have "out s' = out s @ bitmap_lines (var_name_of (snd e)) (fst (resolve_bitmap raster pd s1))"
      by auto
    with resolve_well_formed [OF assms, of pd s1]
    show "\<exists>bitmap. length bitmap = 144 \<and> (\<forall>v \<in> set bitmap. 0 \<le> v \<and> v \<le> 0xFFFF)
                 \<and> out s' = out s @ bitmap_lines (var_name_of (snd e)) bitmap"
      by blast
  qed
  from p g r c st show ?thesis
    by (simp only: length_generate_placeholder) blast
qed

theorem emitted_bitmaps_well_formed_witness:
  "process_twemoji_to_rgb565 (\<lambda>png sz. Some (replicate (nat (sz * sz)) (255, 215, 0))) [0x89] 12
       = Some (replicate 144 0xFEA0)
   \<and> length (replicate 144 (0xFEA0::int)) = 144
   \<and> length (fst (resolve_bitmap (\<lambda>png sz. Some (replicate (nat (sz * sz)) (255, 215, 0)))
                      (Some [0x89]) (initial_state [] Map.empty))) = 144"
proof -
  let ?raster = "\<lambda>(png::bytes) (sz::int). Some (replicate (nat (sz * sz)) (255::int, 215::int, 0::int))"
  have ok: "raster_ok ?raster"
    by (simp add: raster_ok_def rgb_image_def list_all_iff)
  have ev: "process_twemoji_to_rgb565 ?raster [0x89] 12 = Some (replicate 144 0xFEA0)"
    by (simp add: process_twemoji_to_rgb565_def rgb_to_rgb565_def)
  from emitted_bitmaps_well_formed
         [OF ok, of "[0x89]" "replicate 144 0xFEA0" _ "Some [0x89]" "initial_state [] Map.empty"] ev
  show ?thesis by simp
qed

section \<open>Failures degrade to the placeholder\<close>

text \<open>
  Claim C5. When, for a configured code point, \<open>download_twemoji\<close> returns no bytes or
  \<open>process_twemoji_to_rgb565\<close> returns no bitmap, the bitmap chosen is the placeholder,
  the loop body prints it under the entry's name (the lines are given in full) and appends
  the table entry; the failure counter grows by exactly one and the success counter is
  unchanged. No identifier is dropped: the table entries of a completed run carry, in
  order, exactly the configured (code point, name) pairs, and for every configured entry
  the artifact contains its bitmap constant and its table row.
\<close>

theorem failure_gives_placeholder_entry:
  \<open>(download_twemoji net codepoint s = Inr (png_data, s1)
      \<and> (png_data = None \<or> process_twemoji_to_rgb565 raster (the png_data) 12 = None) \<longrightarrow>
      (\<exists>s'. process_emoji net raster category (codepoint, shortcode) s = Inr s'
         \<and> fst (resolve_bitmap raster png_data s1) = generate_placeholder 12
         \<and> out s' = out s @
     [''static const uint16_t '' @ var_name_of shortcode @ ''[144] PROGMEM = {'',
      ''    0x0000, 0x0000, 0x0000, 0xFEA0, 0xFEA0, 0xFEA0, 0xFEA0, 0xFEA0, 0xFEA0, 0x0000, 0x0000, 0x0000,'',
      ''    0x0000, 0x0000, 0xFEA0, 0xFEA0, 0xFEA0, 0xFEA0, 0xFEA0, 0xFEA0, 0xFEA0, 0xFEA0, 0x0000, 0x0000,'',
      ''    0x0000, 0xFEA0, 0xFEA0, 0xFEA0, 0x0000, 0x0000, 0x0000, 0x0000, 0xFEA0, 0xFEA0, 0xFEA0, 0x0000,'',
      ''    0x0000, 0xFEA0, 0xFEA0, 0xFEA0, 0x0000, 0x0000, 0x0000, 0x0000, 0xFEA0, 0xFEA0, 0xFEA0, 0x0000,'',
      ''    0x0000, 0x0000, 0x0000, 0x0000, 0x0000, 0x0000, 0x0000, 0xFEA0, 0xFEA0, 0xFEA0, 0xFEA0, 0x0000,'',
      ''    0x0000, 0x0000, 0x0000, 0x0000, 0x0000, 0x0000, 0xFEA0, 0xFEA0, 0xFEA0, 0xFEA0, 0x0000, 0x0000,'',
      ''    0x0000, 0x0000, 0x0000, 0x0000, 0x0000, 0xFEA0, 0xFEA0, 0xFEA0, 0xFEA0, 0x0000, 0x0000, 0x0000,'',
      ''    0x0000, 0x0000, 0x0000, 0x0000, 0x0000, 0xFEA0, 0xFEA0, 0xFEA0, 0x0000, 0x0000, 0x0000, 0x0000,'',
      ''    0x0000, 0x0000, 0x0000, 0x0000, 0x0000, 0xFEA0, 0xFEA0, 0xFEA0, 0x0000, 0x0000, 0x0000, 0x0000,'',
      ''    0x0000, 0x0000, 0x0000, 0x0000, 0x0000, 0x0000, 0x0000, 0x0000, 0x0000, 0x0000, 0x0000, 0x0000,'',
      ''    0x0000, 0x0000, 0x0000, 0x0000, 0x0000, 0xFEA0, 0xFEA0, 0xFEA0, 0x0000, 0x0000, 0x0000, 0x0000,'',
      ''    0x0000, 0x0000, 0x0000, 0x0000, 0x0000, 0xFEA0, 0xFEA0, 0xFEA0, 0x0000, 0x0000, 0x0000, 0x0000'',
      ''};'', '''']
         \<and> all_entries s' = all_entries s @ [(codepoint, shortcode, var_name_of shortcode, category)]
         \<and> fail_count s' = fail_count s + 1
         \<and> success_count s' = success_count s))
   \<and> (main net raster cfg cache0 = Inr final \<longrightarrow>
        map (\<lambda>(codepoint, shortcode, var_name, category). (codepoint, shortcode))
          (all_entries final) = concat (map snd cfg)
        \<and> (\<forall>(category, emojis) \<in> set cfg. \<forall>(codepoint, shortcode) \<in> set emojis.
             (''static const uint16_t '' @ var_name_of shortcode @ ''[144] PROGMEM = {'')
               \<in> set (out final)
             \<and> (''    { 0x'' @ format_0X 5 codepoint @ '', "'' @ shortcode @ ''", ''
                  @ var_name_of shortcode @ '', EmojiCategory::'' @ category @ '' },'')
               \<in> set (out final)))\<close>
proof (intro conjI impI)
  assume a: "download_twemoji net codepoint s = Inr (png_data, s1)
      \<and> (png_data = None \<or> process_twemoji_to_rgb565 raster (the png_data) 12 = None)"
  from a have d: "download_twemoji net (fst (codepoint, shortcode)) s = Inr (png_data, s1)"
    by simp
  from a have f: "png_data = None \<or> process_twemoji_to_rgb565 raster (the png_data) 12 = None"
    by (rule conjunct2)
  have r: "resolve_bitmap raster png_data s1 =
             (generate_placeholder 12, s1\<lparr>fail_count := fail_count s1 + 1\<rparr>)"
    using f by (rule resolve_failure)
  from process_emoji_step [OF d, of raster category] obtain s'
    where pe: "process_emoji net raster category (codepoint, shortcode) s = Inr s'"
      and o: "out s' = out s @ bitmap_lines (var_name_of shortcode) (generate_placeholder 12)"
      and e: "all_entries s' = all_entries s @ [(codepoint, shortcode, var_name_of shortcode, category)]"
      and fc: "fail_count s' = fail_count s1 + 1"
      and sc: "success_count s' = success_count s1"
    by (auto simp: r)
  from download_Inr_fields(3,4) [OF d] fc sc
  have cnt: "fail_count s' = fail_count s + 1" "success_count s' = success_count s"
    by simp_all
  from pe r o e cnt
  show \<open>\<exists>s'. process_emoji net raster category (codepoint, shortcode) s = Inr s'
         \<and> fst (resolve_bitmap raster png_data s1) = generate_placeholder 12
         \<and> out s' = out s @
     [''static const uint16_t '' @ var_name_of shortcode @ ''[144] PROGMEM = {'',
      ''    0x0000, 0x0000, 0x0000, 0xFEA0, 0xFEA0, 0xFEA0, 0xFEA0, 0xFEA0, 0xFEA0, 0x0000, 0x0000, 0x0000,'',
      ''    0x0000, 0x0000, 0xFEA0, 0xFEA0, 0xFEA0, 0xFEA0, 0xFEA0, 0xFEA0, 0xFEA0, 0xFEA0, 0x0000, 0x0000,'',
      ''    0x0000, 0xFEA0, 0xFEA0, 0xFEA0, 0x0000, 0x0000, 0x0000, 0x0000, 0xFEA0, 0xFEA0, 0xFEA0, 0x0000,'',
      ''    0x0000, 0xFEA0, 0xFEA0, 0xFEA0, 0x0000, 0x0000, 0x0000, 0x0000, 0xFEA0, 0xFEA0, 0xFEA0, 0x0000,'',
      ''    0x0000, 0x0000, 0x0000, 0x0000, 0x0000, 0x0000, 0x0000, 0xFEA0, 0xFEA0, 0xFEA0, 0xFEA0, 0x0000,'',
      ''    0x0000, 0x0000, 0x0000, 0x0000, 0x0000, 0x0000, 0xFEA0, 0xFEA0, 0xFEA0, 0xFEA0, 0x0000, 0x0000,'',
      ''    0x0000, 0x0000, 0x0000, 0x0000, 0x0000, 0xFEA0, 0xFEA0, 0xFEA0, 0xFEA0, 0x0000, 0x0000, 0x0000,'',
      ''    0x0000, 0x0000, 0x0000, 0x0000, 0x0000, 0xFEA0, 0xFEA0, 0xFEA0, 0x0000, 0x0000, 0x0000, 0x0000,'',
      ''    0x0000, 0x0000, 0x0000, 0x0000, 0x0000, 0xFEA0, 0xFEA0, 0xFEA0, 0x0000, 0x0000, 0x0000, 0x0000,'',
      ''    0x0000, 0x0000, 0x0000, 0x0000, 0x0000, 0x0000, 0x0000, 0x0000, 0x0000, 0x0000, 0x0000, 0x0000,'',
      ''    0x0000, 0x0000, 0x0000, 0x0000, 0x0000, 0xFEA0, 0xFEA0, 0xFEA0, 0x0000, 0x0000, 0x0000, 0x0000,'',
      ''    0x0000, 0x0000, 0x0000, 0x0000, 0x0000, 0xFEA0, 0xFEA0, 0xFEA0, 0x0000, 0x0000, 0x0000, 0x0000'',
      ''};'', '''']
         \<and> all_entries s' = all_entries s @ [(codepoint, shortcode, var_name_of shortcode, category)]
         \<and> fail_count s' = fail_count s + 1
         \<and> success_count s' = success_count s\<close>
    by (simp add: placeholder_lines)
next
  assume m: "main net raster cfg cache0 = Inr final"
  show "map (\<lambda>(codepoint, shortcode, var_name, category). (codepoint, shortcode))
          (all_entries final) = concat (map snd cfg)"
    by (simp only: main_entries [OF m] declared_entries_ids)
  from main_text [OF m] obtain body
    where o: "out final = header cfg @ body @ emoji_table (declared_entries cfg)"
      and h: "\<forall>item \<in> set cfg. \<forall>e \<in> set (snd item).
                 bitmap_head (var_name_of (snd e)) \<in> set body"
    by blast
  show \<open>\<forall>(category, emojis) \<in> set cfg. \<forall>(codepoint, shortcode) \<in> set emojis.
             (''static const uint16_t '' @ var_name_of shortcode @ ''[144] PROGMEM = {'')
               \<in> set (out final)
             \<and> (''    { 0x'' @ format_0X 5 codepoint @ '', "'' @ shortcode @ ''", ''
                  @ var_name_of shortcode @ '', EmojiCategory::'' @ category @ '' },'')
               \<in> set (out final)\<close>
  proof (intro ballI, clarify, rule conjI)
    fix category emojis codepoint shortcode
    assume c: "(category, emojis) \<in> set cfg" and e: "(codepoint, shortcode) \<in> set emojis"
    from h c e have "bitmap_head (var_name_of shortcode) \<in> set body" by force
    then show "(''static const uint16_t '' @ var_name_of shortcode @ ''[144] PROGMEM = {'')
               \<in> set (out final)"
      by (simp add: o bitmap_head_def)
    from declared_entry_mem [OF c e]
    have "table_row (codepoint, shortcode, var_name_of shortcode, category)
            \<in> set (emoji_table (declared_entries cfg))"
      by (rule table_row_in_table)
    then show \<open>(''    { 0x'' @ format_0X 5 codepoint @ '', "'' @ shortcode @ ''", ''
                  @ var_name_of shortcode @ '', EmojiCategory::'' @ category @ '' },'')
               \<in> set (out final)\<close>
      by (simp add: o table_row_text)
  qed
qed

theorem failure_gives_placeholder_entry_witness:
  \<open>map_sum id out
      (main (\<lambda>h u. URLError) (\<lambda>png sz. None) [(''FACES'', [(0x1F600, ''grin'')])] Map.empty)
     = Inr
     [''/**'',
      '' * MeshBerry Emoji Bitmap Data (Auto-Generated from Twemoji)'',
      '' * '',
      '' * SPDX-License-Identifier: GPL-3.0-or-later'',
      '' * Copyright (C) 2026 NodakMesh (nodakmesh.org)'',
      '' * '',
      '' * Twemoji graphics licensed under CC-BY 4.0'',
      '' * https://github.com/twitter/twemoji'',
      '' * '',
      '' * Total: 1 emoji as 12x12 RGB565 bitmaps'',
      '' */'',
      '''',
      ''#ifndef MESHBERRY_EMOJI_DATA_H'',
      ''#define MESHBERRY_EMOJI_DATA_H'',
      '''',
      ''#include <Arduino.h>'',
      ''#include "Emoji.h"'',
      '''',
      ''// ============ FACES (1 emoji) ============'',
      '''',
      ''static const uint16_t EMOJI_BMP_GRIN[144] PROGMEM = {'',
      ''    0x0000, 0x0000, 0x0000, 0xFEA0, 0xFEA0, 0xFEA0, 0xFEA0, 0xFEA0, 0xFEA0, 0x0000, 0x0000, 0x0000,'',
      ''    0x0000, 0x0000, 0xFEA0, 0xFEA0, 0xFEA0, 0xFEA0, 0xFEA0, 0xFEA0, 0xFEA0, 0xFEA0, 0x0000, 0x0000,'',
      ''    0x0000, 0xFEA0, 0xFEA0, 0xFEA0, 0x0000, 0x0000, 0x0000, 0x0000, 0xFEA0, 0xFEA0, 0xFEA0, 0x0000,'',
      ''    0x0000, 0xFEA0, 0xFEA0, 0xFEA0, 0x0000, 0x0000, 0x0000, 0x0000, 0xFEA0, 0xFEA0, 0xFEA0, 0x0000,'',
      ''    0x0000, 0x0000, 0x0000, 0x0000, 0x0000, 0x0000, 0x0000, 0xFEA0, 0xFEA0, 0xFEA0, 0xFEA0, 0x0000,'',
      ''    0x0000, 0x0000, 0x0000, 0x0000, 0x0000, 0x0000, 0xFEA0, 0xFEA0, 0xFEA0, 0xFEA0, 0x0000, 0x0000,'',
      ''    0x0000, 0x0000, 0x0000, 0x0000, 0x0000, 0xFEA0, 0xFEA0, 0xFEA0, 0xFEA0, 0x0000, 0x0000, 0x0000,'',
      ''    0x0000, 0x0000, 0x0000, 0x0000, 0x0000, 0xFEA0, 0xFEA0, 0xFEA0, 0x0000, 0x0000, 0x0000, 0x0000,'',
      ''    0x0000, 0x0000, 0x0000, 0x0000, 0x0000, 0xFEA0, 0xFEA0, 0xFEA0, 0x0000, 0x0000, 0x0000, 0x0000,'',
      ''    0x0000, 0x0000, 0x0000, 0x0000, 0x0000, 0x0000, 0x0000, 0x0000, 0x0000, 0x0000, 0x0000, 0x0000,'',
      ''    0x0000, 0x0000, 0x0000, 0x0000, 0x0000, 0xFEA0, 0xFEA0, 0xFEA0, 0x0000, 0x0000, 0x0000, 0x0000,'',
      ''    0x0000, 0x0000, 0x0000, 0x0000, 0x0000, 0xFEA0, 0xFEA0, 0xFEA0, 0x0000, 0x0000, 0x0000, 0x0000'',
      ''};'',
      '''',
      ''// ============ EMOJI TABLE ============'',
      '''',
      ''const int EMOJI_COUNT = 1;'',
      '''',
      ''const EmojiEntry EMOJI_TABLE[EMOJI_COUNT] PROGMEM = {'',
      ''    { 0x1F600, "grin", EMOJI_BMP_GRIN, EmojiCategory::FACES },'',
      ''};'',
      '''',
      ''#endif // MESHBERRY_EMOJI_DATA_H'']
   \<and> map_sum id all_entries
      (main (\<lambda>h u. URLError) (\<lambda>png sz. None) [(''FACES'', [(0x1F600, ''grin'')])] Map.empty)
     = Inr [(0x1F600, ''grin'', ''EMOJI_BMP_GRIN'', ''FACES'')]
   \<and> map_sum id fail_count
      (main (\<lambda>h u. URLError) (\<lambda>png sz. None) [(''FACES'', [(0x1F600, ''grin'')])] Map.empty)
     = Inr 1
   \<and> map_sum id success_count
      (main (\<lambda>h u. URLError) (\<lambda>png sz. None) [(''FACES'', [(0x1F600, ''grin'')])] Map.empty)
     = Inr 0\<close>
proof -
  let ?net = "\<lambda>(h::event list) (u::string). URLError"
  let ?raster = "\<lambda>(png::bytes) (sz::int). (None::pixel list option)"
  let ?cfg = "[(''FACES'', [(0x1F600::int, ''grin'')])]"
  let ?s = "(initial_state ?cfg Map.empty)
              \<lparr>out := header ?cfg @ [''// ============ '' @ ''FACES'' @ '' ('' @ format_d 1
                        @ '' emoji) ============'', '''']\<rparr>"
  let ?s1 = "?s\<lparr>trace := trace ?s @ [Fetch (fetch_url 0x1F600)]\<rparr>"
  have one: "format_d 1 = ''1''"
    by (simp add: format_d_def dec_digits.simps)
  have five: "format_0X 5 0x1F600 = ''1F600''"
    by (simp add: format_0X_def zero_pad_def hex_digits.simps hex_digit_def)
  have total: "total_count ?cfg = 1"
    by (simp add: total_count_def)
  have d: "download_twemoji ?net 0x1F600 ?s = Inr (None, ?s1)"
    by (rule download_miss_urlerror) (simp_all add: cache_get_def initial_state_fields)
  from failure_gives_placeholder_entry
         [of ?net "0x1F600" ?s None ?s1 ?raster "''FACES''" "''grin''"] d
  obtain s' where pe: "process_emoji ?net ?raster ''FACES'' (0x1F600, ''grin'') ?s = Inr s'"
    and o: \<open>out s' = out ?s @
     [''static const uint16_t '' @ var_name_of ''grin'' @ ''[144] PROGMEM = {'',
      ''    0x0000, 0x0000, 0x0000, 0xFEA0, 0xFEA0, 0xFEA0, 0xFEA0, 0xFEA0, 0xFEA0, 0x0000, 0x0000, 0x0000,'',
      ''    0x0000, 0x0000, 0xFEA0, 0xFEA0, 0xFEA0, 0xFEA0, 0xFEA0, 0xFEA0, 0xFEA0, 0xFEA0, 0x0000, 0x0000,'',
      ''    0x0000, 0xFEA0, 0xFEA0, 0xFEA0, 0x0000, 0x0000, 0x0000, 0x0000, 0xFEA0, 0xFEA0, 0xFEA0, 0x0000,'',
      ''    0x0000, 0xFEA0, 0xFEA0, 0xFEA0, 0x0000, 0x0000, 0x0000, 0x0000, 0xFEA0, 0xFEA0, 0xFEA0, 0x0000,'',
      ''    0x0000, 0x0000, 0x0000, 0x0000, 0x0000, 0x0000, 0x0000, 0xFEA0, 0xFEA0, 0xFEA0, 0xFEA0, 0x0000,'',
      ''    0x0000, 0x0000, 0x0000, 0x0000, 0x0000, 0x0000, 0xFEA0, 0xFEA0, 0xFEA0, 0xFEA0, 0x0000, 0x0000,'',
      ''    0x0000, 0x0000, 0x0000, 0x0000, 0x0000, 0xFEA0, 0xFEA0, 0xFEA0, 0xFEA0, 0x0000, 0x0000, 0x0000,'',
      ''    0x0000, 0x0000, 0x0000, 0x0000, 0x0000, 0xFEA0, 0xFEA0, 0xFEA0, 0x0000, 0x0000, 0x0000, 0x0000,'',
      ''    0x0000, 0x0000, 0x0000, 0x0000, 0x0000, 0xFEA0, 0xFEA0, 0xFEA0, 0x0000, 0x0000, 0x0000, 0x0000,'',
      ''    0x0000, 0x0000, 0x0000, 0x0000, 0x0000, 0x0000, 0x0000, 0x0000, 0x0000, 0x0000, 0x0000, 0x0000,'',
      ''    0x0000, 0x0000, 0x0000, 0x0000, 0x0000, 0xFEA0, 0xFEA0, 0xFEA0, 0x0000, 0x0000, 0x0000, 0x0000,'',
      ''    0x0000, 0x0000, 0x0000, 0x0000, 0x0000, 0xFEA0, 0xFEA0, 0xFEA0, 0x0000, 0x0000, 0x0000, 0x0000'',
      ''};'', '''']\<close>
    and e: "all_entries s' = all_entries ?s @ [(0x1F600, ''grin'', var_name_of ''grin'', ''FACES'')]"
    and c: "fail_count s' = fail_count ?s + 1" "success_count s' = success_count ?s"
    by blast
  have m: "main ?net ?raster ?cfg Map.empty
             = Inr (s'\<lparr>out := out s' @ emoji_table (all_entries s')\<rparr>)"
    by (simp only: main_single pe sum.case)
  let ?final = "s'\<lparr>out := out s' @ emoji_table (all_entries s')\<rparr>"
  have f1: \<open>out ?final =
     [''/**'',
      '' * MeshBerry Emoji Bitmap Data (Auto-Generated from Twemoji)'',
      '' * '',
      '' * SPDX-License-Identifier: GPL-3.0-or-later'',
      '' * Copyright (C) 2026 NodakMesh (nodakmesh.org)'',
      '' * '',
      '' * Twemoji graphics licensed under CC-BY 4.0'',
      '' * https://github.com/twitter/twemoji'',
      '' * '',
      '' * Total: 1 emoji as 12x12 RGB565 bitmaps'',
      '' */'',
      '''',
      ''#ifndef MESHBERRY_EMOJI_DATA_H'',
      ''#define MESHBERRY_EMOJI_DATA_H'',
      '''',
      ''#include <Arduino.h>'',
      ''#include "Emoji.h"'',
      '''',
      ''// ============ FACES (1 emoji) ============'',
      '''',
      ''static const uint16_t EMOJI_BMP_GRIN[144] PROGMEM = {'',
      ''    0x0000, 0x0000, 0x0000, 0xFEA0, 0xFEA0, 0xFEA0, 0xFEA0, 0xFEA0, 0xFEA0, 0x0000, 0x0000, 0x0000,'',
      ''    0x0000, 0x0000, 0xFEA0, 0xFEA0, 0xFEA0, 0xFEA0, 0xFEA0, 0xFEA0, 0xFEA0, 0xFEA0, 0x0000, 0x0000,'',
      ''    0x0000, 0xFEA0, 0xFEA0, 0xFEA0, 0x0000, 0x0000, 0x0000, 0x0000, 0xFEA0, 0xFEA0, 0xFEA0, 0x0000,'',
      ''    0x0000, 0xFEA0, 0xFEA0, 0xFEA0, 0x0000, 0x0000, 0x0000, 0x0000, 0xFEA0, 0xFEA0, 0xFEA0, 0x0000,'',
      ''    0x0000, 0x0000, 0x0000, 0x0000, 0x0000, 0x0000, 0x0000, 0xFEA0, 0xFEA0, 0xFEA0, 0xFEA0, 0x0000,'',
      ''    0x0000, 0x0000, 0x0000, 0x0000, 0x0000, 0x0000, 0xFEA0, 0xFEA0, 0xFEA0, 0xFEA0, 0x0000, 0x0000,'',
      ''    0x0000, 0x0000, 0x0000, 0x0000, 0x0000, 0xFEA0, 0xFEA0, 0xFEA0, 0xFEA0, 0x0000, 0x0000, 0x0000,'',
      ''    0x0000, 0x0000, 0x0000, 0x0000, 0x0000, 0xFEA0, 0xFEA0, 0xFEA0, 0x0000, 0x0000, 0x0000, 0x0000,'',
      ''    0x0000, 0x0000, 0x0000, 0x0000, 0x0000, 0xFEA0, 0xFEA0, 0xFEA0, 0x0000, 0x0000, 0x0000, 0x0000,'',
      ''    0x0000, 0x0000, 0x0000, 0x0000, 0x0000, 0x0000, 0x0000, 0x0000, 0x0000, 0x0000, 0x0000, 0x0000,'',
      ''    0x0000, 0x0000, 0x0000, 0x0000, 0x0000, 0xFEA0, 0xFEA0, 0xFEA0, 0x0000, 0x0000, 0x0000, 0x0000,'',
      ''    0x0000, 0x0000, 0x0000, 0x0000, 0x0000, 0xFEA0, 0xFEA0, 0xFEA0, 0x0000, 0x0000, 0x0000, 0x0000'',
      ''};'',
      '''',
      ''// ============ EMOJI TABLE ============'',
      '''',
      ''const int EMOJI_COUNT = 1;'',
      '''',
      ''const EmojiEntry EMOJI_TABLE[EMOJI_COUNT] PROGMEM = {'',
      ''    { 0x1F600, "grin", EMOJI_BMP_GRIN, EmojiCategory::FACES },'',
      ''};'',
      '''',
      ''#endif // MESHBERRY_EMOJI_DATA_H'']\<close>
    by (simp add: o e initial_state_fields var_name_grin emoji_table_def table_row_def
        header_def total one five)
  have f2: "all_entries ?final = [(0x1F600, ''grin'', ''EMOJI_BMP_GRIN'', ''FACES'')]"
    by (simp add: e initial_state_fields var_name_grin)
  have f3: "fail_count ?final = 1"
    by (simp add: c initial_state_fields)
  have f4: "success_count ?final = 0"
    by (simp add: c initial_state_fields)
  show ?thesis
    by (simp only: m map_sum.simps id_apply f1 f2 f3 f4)
qed

section \<open>Order of the table and the count constant\<close>

text \<open>
  Claim C6. In the artifact of a completed run the combined table lists the entries in
  the configuration's declaration order: the categories in declared order and, within a
  category, its entries in declared order, nothing sorted and nothing removed. The
  artifact ends with the table section, given here line by line: the count constant, whose
  value is the number of entries, then one row per entry in that order. The number of
  entries is the configured total.
\<close>

theorem table_in_declaration_order:
  \<open>(main net raster cfg cache0 = Inr final \<longrightarrow>
      all_entries final = declared_entries cfg
      \<and> (\<exists>body. out final = header cfg @ body @
           [''// ============ EMOJI TABLE ============'',
            '''',
            ''const int EMOJI_COUNT = '' @ format_d (int (length (declared_entries cfg))) @ '';'',
            '''',
            ''const EmojiEntry EMOJI_TABLE[EMOJI_COUNT] PROGMEM = {'']
           @ map (\<lambda>(codepoint, shortcode, var_name, category).
                    ''    { 0x'' @ format_0X 5 codepoint @ '', "'' @ shortcode @ ''", ''
                    @ var_name @ '', EmojiCategory::'' @ category @ '' },'')
               (declared_entries cfg)
           @ [''};'', '''', ''#endif // MESHBERRY_EMOJI_DATA_H'']))
   \<and> declared_entries [] = []
   \<and> declared_entries ((category, emojis) # cfg) =
       map (\<lambda>(codepoint, shortcode).
              (codepoint, shortcode, ''EMOJI_BMP_'' @ upper shortcode, category)) emojis
       @ declared_entries cfg
   \<and> int (length (declared_entries cfg)) = total_count cfg\<close>
proof (intro conjI impI)
  assume m: "main net raster cfg cache0 = Inr final"
  show "all_entries final = declared_entries cfg"
    using m by (rule main_entries)
  from main_text [OF m] obtain body
    where "out final = header cfg @ body @ emoji_table (declared_entries cfg)"
    by blast
  then show \<open>\<exists>body. out final = header cfg @ body @
           [''// ============ EMOJI TABLE ============'',
            '''',
            ''const int EMOJI_COUNT = '' @ format_d (int (length (declared_entries cfg))) @ '';'',
            '''',
            ''const EmojiEntry EMOJI_TABLE[EMOJI_COUNT] PROGMEM = {'']
           @ map (\<lambda>(codepoint, shortcode, var_name, category).
                    ''    { 0x'' @ format_0X 5 codepoint @ '', "'' @ shortcode @ ''", ''
                    @ var_name @ '', EmojiCategory::'' @ category @ '' },'')
               (declared_entries cfg)
           @ [''};'', '''', ''#endif // MESHBERRY_EMOJI_DATA_H'']\<close>
    unfolding emoji_table_text by blast
next
  show "declared_entries [] = []"
    by (rule declared_entries_Nil)
  show "declared_entries ((category, emojis) # cfg) =
       map (\<lambda>(codepoint, shortcode).
              (codepoint, shortcode, ''EMOJI_BMP_'' @ upper shortcode, category)) emojis
       @ declared_entries cfg"
    by (simp add: declared_entries_Cons var_name_of_def)
  show "int (length (declared_entries cfg)) = total_count cfg"
    by (rule length_declared_entries)
qed

theorem table_in_declaration_order_witness:
  \<open>map_sum id all_entries
      (main (\<lambda>h u. URLError) (\<lambda>png sz. None)
         [(''TRAVEL'', [(0x1F5FF, ''moyai''), (0x2693, ''anchor'')]),
          (''OBJECTS'', [(0x1F5FF, ''moai'')])] Map.empty)
     = Inr [(0x1F5FF, ''moyai'', ''EMOJI_BMP_MOYAI'', ''TRAVEL''),
            (0x2693, ''anchor'', ''EMOJI_BMP_ANCHOR'', ''TRAVEL''),
            (0x1F5FF, ''moai'', ''EMOJI_BMP_MOAI'', ''OBJECTS'')]
   \<and> map_sum id (\<lambda>s. drop (length (out s) - 11) (out s))
      (main (\<lambda>h u. URLError) (\<lambda>png sz. None)
         [(''TRAVEL'', [(0x1F5FF, ''moyai''), (0x2693, ''anchor'')]),
          (''OBJECTS'', [(0x1F5FF, ''moai'')])] Map.empty)
     = Inr
     [''// ============ EMOJI TABLE ============'',
      '''',
      ''const int EMOJI_COUNT = 3;'',
      '''',
      ''const EmojiEntry EMOJI_TABLE[EMOJI_COUNT] PROGMEM = {'',
      ''    { 0x1F5FF, "moyai", EMOJI_BMP_MOYAI, EmojiCategory::TRAVEL },'',
      ''    { 0x02693, "anchor", EMOJI_BMP_ANCHOR, EmojiCategory::TRAVEL },'',
      ''    { 0x1F5FF, "moai", EMOJI_BMP_MOAI, EmojiCategory::OBJECTS },'',
      ''};'',
      '''',
      ''#endif // MESHBERRY_EMOJI_DATA_H'']\<close>
proof -
  let ?net = "\<lambda>(h::event list) (u::string). URLError"
  let ?raster = "\<lambda>(png::bytes) (sz::int). (None::pixel list option)"
  let ?cfg = "[(''TRAVEL'', [(0x1F5FF::int, ''moyai''), (0x2693, ''anchor'')]),
               (''OBJECTS'', [(0x1F5FF, ''moai'')])]"
  have "never_raises ?net" by (simp add: never_raises_def)
  from main_never_raises [OF this, of ?raster ?cfg Map.empty] obtain final
    where m: "main ?net ?raster ?cfg Map.empty = Inr final" by blast
  have d: "declared_entries ?cfg =
             [(0x1F5FF, ''moyai'', ''EMOJI_BMP_MOYAI'', ''TRAVEL''),
              (0x2693, ''anchor'', ''EMOJI_BMP_ANCHOR'', ''TRAVEL''),
              (0x1F5FF, ''moai'', ''EMOJI_BMP_MOAI'', ''OBJECTS'')]"
    by (simp add: declared_entries_def var_name_of_def upper_def upper_char_def)
  have fmt: "format_0X 5 0x1F5FF = ''1F5FF''" "format_0X 5 0x2693 = ''02693''"
    "format_d 3 = ''3''"
    by (simp_all add: format_0X_def format_d_def zero_pad_def hex_digits.simps dec_digits.simps
        hex_digit_def replicate_numeral_unfold)
  from table_in_declaration_order [of ?net ?raster ?cfg Map.empty final] m
  obtain body where e: "all_entries final = declared_entries ?cfg"
    and o: \<open>out final = (header ?cfg @ body) @
     [''// ============ EMOJI TABLE ============'',
      '''',
      ''const int EMOJI_COUNT = 3;'',
      '''',
      ''const EmojiEntry EMOJI_TABLE[EMOJI_COUNT] PROGMEM = {'',
      ''    { 0x1F5FF, "moyai", EMOJI_BMP_MOYAI, EmojiCategory::TRAVEL },'',
      ''    { 0x02693, "anchor", EMOJI_BMP_ANCHOR, EmojiCategory::TRAVEL },'',
      ''    { 0x1F5FF, "moai", EMOJI_BMP_MOAI, EmojiCategory::OBJECTS },'',
      ''};'',
      '''',
      ''#endif // MESHBERRY_EMOJI_DATA_H'']\<close>
    by (auto simp: d fmt)
  have \<open>drop (length (out final) - 11) (out final) =
     [''// ============ EMOJI TABLE ============'',
      '''',
      ''const int EMOJI_COUNT = 3;'',
      '''',
      ''const EmojiEntry EMOJI_TABLE[EMOJI_COUNT] PROGMEM = {'',
      ''    { 0x1F5FF, "moyai", EMOJI_BMP_MOYAI, EmojiCategory::TRAVEL },'',
      ''    { 0x02693, "anchor", EMOJI_BMP_ANCHOR, EmojiCategory::TRAVEL },'',
      ''    { 0x1F5FF, "moai", EMOJI_BMP_MOAI, EmojiCategory::OBJECTS },'',
      ''};'',
      '''',
      ''#endif // MESHBERRY_EMOJI_DATA_H'']\<close>
    unfolding o by (rule drop_suffix_len) simp
  with m e show ?thesis by (simp add: d)
qed

section \<open>Reruns on a warm cache\<close>

text \<open>
  Claim C4. With every configured identifier present in the cache, the artifact does not
  depend on the remote source: two runs from the same cache contents and configuration
  complete and print the same text, whatever the network would answer. Such a run makes
  no request and leaves the cache as it was, so a rerun from the cache the first run left
  ends in the same state again.
\<close>

theorem warm_cache_artifact_deterministic:
  assumes "warm cache0 cfg"
  shows "\<exists>final. main net1 raster cfg cache0 = Inr final
           \<and> main net2 raster cfg cache0 = Inr final
           \<and> cache final = cache0
           \<and> filter (\<lambda>ev. ev \<noteq> Sleep) (trace final) = []
           \<and> main net2 raster cfg (cache final) = Inr final"
proof -
  from main_warm [OF assms, of net1 raster net2] obtain final
    where "main net1 raster cfg cache0 = Inr final"
      and "main net2 raster cfg cache0 = Inr final"
      and "cache final = cache0"
      and "filter (\<lambda>ev. ev \<noteq> Sleep) (trace final) = []"
    by blast
  then show ?thesis by simp
qed

theorem warm_cache_artifact_deterministic_witness:
  "cache_get [''1f600.png'' \<mapsto> [0x89]] 0x1F600 = Some [0x89]
   \<and> main (\<lambda>h u. Raises TimeoutError) (\<lambda>png sz. None) [(''FACES'', [(0x1F600, ''grin'')])]
        [''1f600.png'' \<mapsto> [0x89]]
     = main (\<lambda>h u. Body [0x50]) (\<lambda>png sz. None) [(''FACES'', [(0x1F600, ''grin'')])]
        [''1f600.png'' \<mapsto> [0x89]]
   \<and> map_sum id cache
        (main (\<lambda>h u. Body [0x50]) (\<lambda>png sz. None) [(''FACES'', [(0x1F600, ''grin'')])]
          [''1f600.png'' \<mapsto> [0x89]])
     = Inr [''1f600.png'' \<mapsto> [0x89]]
   \<and> map_sum id trace
        (main (\<lambda>h u. Body [0x50]) (\<lambda>png sz. None) [(''FACES'', [(0x1F600, ''grin'')])]
          [''1f600.png'' \<mapsto> [0x89]])
     = Inr [Sleep]"
proof -
  have g: "cache_get [''1f600.png'' \<mapsto> [0x89]] 0x1F600 = Some [0x89]"
    by (simp add: cache_get_def filename_1f600)
  then have w: "warm [''1f600.png'' \<mapsto> [0x89]] [(''FACES'', [(0x1F600, ''grin'')])]"
    by (simp add: warm_def)
  from warm_cache_artifact_deterministic
         [OF w, of "\<lambda>h u. Raises TimeoutError" "\<lambda>png sz. None" "\<lambda>h u. Body [0x50]"]
  obtain final
    where 1: "main (\<lambda>h u. Raises TimeoutError) (\<lambda>png sz. None) [(''FACES'', [(0x1F600, ''grin'')])]
                [''1f600.png'' \<mapsto> [0x89]] = Inr final"
      and 2: "main (\<lambda>h u. Body [0x50]) (\<lambda>png sz. None) [(''FACES'', [(0x1F600, ''grin'')])]
                [''1f600.png'' \<mapsto> [0x89]] = Inr final"
      and c: "cache final = [''1f600.png'' \<mapsto> [0x89]]"
    by blast
  from main_sleeps [OF 2] have "sleeps (trace final) = 1"
    by (simp add: total_count_def)
  moreover from warm_cache_artifact_deterministic
         [OF w, of "\<lambda>h u. Body [0x50]" "\<lambda>png sz. None" "\<lambda>h u. Body [0x50]"] 2
  have "filter (\<lambda>ev. ev \<noteq> Sleep) (trace final) = []" by auto
  ultimately have "trace final = [Sleep]"
    by (rule only_sleeps)
  with g 1 2 c show ?thesis by simp
qed

section \<open>The delay between requests\<close>

text \<open>
  Claim C2 says that the fixed delay is performed only between consecutive network
  fetches and not for an identifier served from the cache. The loop body ends with
  \<open>time.sleep(0.05)\<close> unconditionally: a run over one identifier whose file is in
  the cache completes without a request and still sleeps once.
\<close>

theorem delay_on_cache_hit_counterexample:
  "cache_get [''1f600.png'' \<mapsto> [0x89]] 0x1F600 = Some [0x89]
   \<and> map_sum id trace
        (main (\<lambda>h u. URLError) (\<lambda>png sz. None) [(''FACES'', [(0x1F600, ''grin'')])]
           [''1f600.png'' \<mapsto> [0x89]])
     = Inr [Sleep]"
proof
  let ?net = "\<lambda>(h::event list) (u::string). URLError"
  let ?raster = "\<lambda>(png::bytes) (sz::int). (None::pixel list option)"
  let ?cfg = "[(''FACES'', [(0x1F600::int, ''grin'')])]"
  let ?c = "[''1f600.png'' \<mapsto> [0x89::8 word]]"
  let ?s = "(initial_state ?cfg ?c)
              \<lparr>out := header ?cfg @ [''// ============ '' @ ''FACES'' @ '' ('' @ format_d 1
                        @ '' emoji) ============'', '''']\<rparr>"
  show g: "cache_get ?c 0x1F600 = Some [0x89]"
    by (simp add: cache_get_def filename_1f600)
  have "download_twemoji ?net (fst (0x1F600, ''grin'')) ?s = Inr (Some [0x89], ?s)"
    by (rule download_hit) (simp add: g initial_state_fields)
  from process_emoji_step [OF this, of ?raster "''FACES''"] obtain s'
    where pe: "process_emoji ?net ?raster ''FACES'' (0x1F600, ''grin'') ?s = Inr s'"
      and t: "trace s' = trace ?s @ [Sleep]"
    by blast
  have m: "main ?net ?raster ?cfg ?c = Inr (s'\<lparr>out := out s' @ emoji_table (all_entries s')\<rparr>)"
    by (simp only: main_single pe sum.case)
  show "map_sum id trace (main ?net ?raster ?cfg ?c) = Inr [Sleep]"
    by (simp add: m t initial_state_fields)
qed

text \<open>
  Claim C2, amended. The fixed delay is performed once at the end of the processing of
  every configured identifier, whether its bytes came from the cache or from the network
  or the fetch failed: a completed loop body appends to the trace at most one request
  (exactly when the identifier is not in the cache) followed by one delay, so every
  request is followed by a delay before the next request, and a completed run performs as
  many delays as the configuration has entries.
\<close>

theorem delay_after_every_identifier:
  "(process_emoji net raster category (codepoint, shortcode) s = Inr s' \<longrightarrow>
      trace s' = trace s
        @ (if cache_get (cache s) codepoint = None then [Fetch (fetch_url codepoint)] else [])
        @ [Sleep])
   \<and> (main net raster cfg cache0 = Inr final \<longrightarrow>
        int (sleeps (trace final)) = total_count cfg)"
  using process_emoji_fields(2) [of net raster category "(codepoint, shortcode)" s s']
    main_sleeps [of net raster cfg cache0 final]
  by simp

theorem delay_after_every_identifier_witness:
  "map_sum id (\<lambda>s. int (sleeps (trace s)))
     (main (\<lambda>h u. URLError) (\<lambda>png sz. None)
        [(''TRAVEL'', [(0x1F5FF, ''moyai''), (0x2693, ''anchor'')]),
         (''OBJECTS'', [(0x1F5FF, ''moai'')])] Map.empty)
   = Inr 3"
proof -
  let ?net = "\<lambda>(h::event list) (u::string). URLError"
  let ?raster = "\<lambda>(png::bytes) (sz::int). (None::pixel list option)"
  let ?cfg = "[(''TRAVEL'', [(0x1F5FF::int, ''moyai''), (0x2693, ''anchor'')]),
               (''OBJECTS'', [(0x1F5FF, ''moai'')])]"
  have "never_raises ?net" by (simp add: never_raises_def)
  from main_never_raises [OF this, of ?raster ?cfg Map.empty] obtain final
    where m: "main ?net ?raster ?cfg Map.empty = Inr final" by blast
  from delay_after_every_identifier [of ?net ?raster _ _ _ _ _ ?cfg Map.empty final] m
  have "int (sleeps (trace final)) = total_count ?cfg" by blast
  with m show ?thesis by (simp add: total_count_def)
qed

section \<open>Soundness of the name checker\<close>

lemma trie_mem_path: "trie_mem k (trie_path bs) = (k = bs)"
proof (induction bs arbitrary: k rule: trie_path.induct)
  case 1
  show ?case by (cases k rule: trie_path.cases) simp_all
next
  case (2 bs)
  then show ?case by (cases k rule: trie_path.cases) simp_all
next
  case (3 bs)
  then show ?case by (cases k rule: trie_path.cases) simp_all
qed

lemma put_left_Some:
  "put_left e r x = Some t \<longleftrightarrow> (\<exists>l. x = Some l \<and> t = Node e l r)"
  by (cases x) auto

lemma put_right_Some:
  "put_right e l x = Some t \<longleftrightarrow> (\<exists>r. x = Some r \<and> t = Node e l r)"
  by (cases x) auto

lemma trie_add_sound:
  "trie_add bs t = Some t' \<Longrightarrow>
     \<not> trie_mem bs t \<and> (\<forall>k. trie_mem k t' = (k = bs \<or> trie_mem k t))"
proof (induction bs t arbitrary: t' rule: trie_add.induct)
  case (1 bs)
  then show ?case by (auto simp: trie_mem_path)
next
  case (2 l r)
  then show ?case by simp
next
  case (3 l r)
  then have t': "t' = Node True l r" by simp
  have "trie_mem k t' = (k = [] \<or> trie_mem k (Node False l r))" for k
    unfolding t' by (cases k rule: trie_path.cases) simp_all
  then show ?case by simp
next
  case (4 bs e l r)
  from "4.prems" obtain r' where r': "trie_add bs r = Some r'" and t': "t' = Node e l r'"
    by (auto simp: put_right_Some)
  note IH = "4.IH" [OF r']
  have "trie_mem k t' = (k = True # bs \<or> trie_mem k (Node e l r))" for k
    unfolding t' using IH by (cases k rule: trie_path.cases) auto
  with IH show ?case by simp
next
  case (5 bs e l r)
  from "5.prems" obtain l' where l': "trie_add bs l = Some l'" and t': "t' = Node e l' r"
    by (auto simp: put_left_Some)
  note IH = "5.IH" [OF l']
  have "trie_mem k t' = (k = False # bs \<or> trie_mem k (Node e l r))" for k
    unfolding t' using IH by (cases k rule: trie_path.cases) auto
  with IH show ?case by simp
qed

lemma add_all_sound:
  "add_all (Some t) ks \<Longrightarrow>
     distinct (map name_bits ks) \<and> (\<forall>k \<in> set ks. \<not> trie_mem (name_bits k) t)"
proof (induction ks arbitrary: t)
  case Nil
  then show ?case by simp
next
  case (Cons k ks)
  show ?case
  proof (cases "trie_add (name_bits k) t")
    case None
    with Cons.prems show ?thesis by simp
  next
    case (Some t')
    with Cons.prems have "add_all (Some t') ks" by simp
    from Cons.IH [OF this] have d: "distinct (map name_bits ks)"
      and fresh: "\<forall>k' \<in> set ks. \<not> trie_mem (name_bits k') t'" by blast+
    from trie_add_sound [OF Some] have new: "\<not> trie_mem (name_bits k) t"
      and mem: "\<And>x. trie_mem x t' = (x = name_bits k \<or> trie_mem x t)" by blast+
    from fresh mem have "\<forall>k' \<in> set ks. name_bits k' \<noteq> name_bits k \<and> \<not> trie_mem (name_bits k') t"
      by blast
    with d new show ?thesis by auto
  qed
qed

lemma add_all_distinct: "add_all (Some Leaf) ks \<Longrightarrow> distinct ks"
  using add_all_sound [of Leaf ks] by (simp add: distinct_map)

section \<open>Names and identifiers of the configured set\<close>

lemma EMOJI_DATA_items:
  "concat (map snd EMOJI_DATA) =
     EMOJI_DATA_FACES @ EMOJI_DATA_GESTURES @ EMOJI_DATA_PEOPLE @ EMOJI_DATA_HEARTS
     @ EMOJI_DATA_ANIMALS @ EMOJI_DATA_FOOD @ EMOJI_DATA_ACTIVITIES @ EMOJI_DATA_TRAVEL
     @ EMOJI_DATA_OBJECTS @ EMOJI_DATA_SYMBOLS @ EMOJI_DATA_FLAGS"
  by (simp add: EMOJI_DATA_def)

lemma names_checked: "add_all (Some Leaf) (map snd (concat (map snd EMOJI_DATA)))"
  unfolding EMOJI_DATA_items
  unfolding EMOJI_DATA_FACES_def EMOJI_DATA_GESTURES_def EMOJI_DATA_PEOPLE_def
    EMOJI_DATA_HEARTS_def EMOJI_DATA_ANIMALS_def EMOJI_DATA_FOOD_def EMOJI_DATA_ACTIVITIES_def
    EMOJI_DATA_TRAVEL_def EMOJI_DATA_OBJECTS_def EMOJI_DATA_SYMBOLS_def EMOJI_DATA_FLAGS_def
  by (simp only: append.simps list.map snd_conv add_all.simps name_bits.simps trie_add.simps
      trie_path.simps put_left.simps put_right.simps)

lemma names_distinct: "distinct (map snd (concat (map snd EMOJI_DATA)))"
  using names_checked by (rule add_all_distinct)

lemma moyai_declared: "(0x1F5FF, ''moyai'') \<in> set EMOJI_DATA_TRAVEL"
  unfolding EMOJI_DATA_TRAVEL_def by simp

lemma moai_declared: "(0x1F5FF, ''moai'') \<in> set EMOJI_DATA_OBJECTS"
  unfolding EMOJI_DATA_OBJECTS_def by simp

lemma grin_declared: "(0x1F600, ''grin'') \<in> set (concat (map snd EMOJI_DATA))"
  unfolding EMOJI_DATA_items EMOJI_DATA_FACES_def by simp

lemma declared_entries_names:
  "map (\<lambda>(codepoint, shortcode, var_name, category). shortcode) (declared_entries cfg)
     = map snd (concat (map snd cfg))"
proof -
  have "map (\<lambda>(codepoint, shortcode, var_name, category). shortcode) (declared_entries cfg)
        = map snd (map (\<lambda>(codepoint, shortcode, var_name, category). (codepoint, shortcode))
                     (declared_entries cfg))"
    by (simp add: case_prod_beta)
  then show ?thesis by (simp only: declared_entries_ids)
qed

lemma one_entry_per_record:
  assumes d: "distinct (map snd (concat (map snd cfg)))"
    and m: "(codepoint, shortcode) \<in> set (concat (map snd cfg))"
  shows "length (filter (\<lambda>(c, n, v, k). c = codepoint \<and> n = shortcode) (declared_entries cfg)) = 1"
proof -
  let ?recs = "concat (map snd cfg)"
  let ?proj = "\<lambda>(c, n, v, k). (c, n)"
  have recs: "distinct ?recs" using d by (simp add: distinct_map)
  have "(\<lambda>(c, n, v, k). c = codepoint \<and> n = shortcode)
          = (\<lambda>r. r = (codepoint, shortcode)) \<circ> ?proj"
    by (auto simp: fun_eq_iff)
  then have "length (filter (\<lambda>(c, n, v, k). c = codepoint \<and> n = shortcode) (declared_entries cfg))
          = length (filter ((\<lambda>r. r = (codepoint, shortcode)) \<circ> ?proj) (declared_entries cfg))"
    by (rule arg_cong [of _ _ "\<lambda>P. length (filter P (declared_entries cfg))"])
  also have "\<dots> = length (filter (\<lambda>r. r = (codepoint, shortcode)) (map ?proj (declared_entries cfg)))"
    by (simp only: filter_map length_map)
  also have "\<dots> = length (filter (\<lambda>r. r = (codepoint, shortcode)) ?recs)"
    by (simp only: declared_entries_ids)
  also have "\<dots> = card ({r. r = (codepoint, shortcode)} \<inter> set ?recs)"
    using recs by (rule distinct_length_filter)
  also have "{r. r = (codepoint, shortcode)} \<inter> set ?recs = {(codepoint, shortcode)}"
    using m by auto
  finally show ?thesis by simp
qed

lemma same_key_not_distinct:
  assumes "x \<in> set xs" "y \<in> set xs" "x \<noteq> y" "f x = f y"
  shows "\<not> distinct (map f xs)"
proof
  assume "distinct (map f xs)"
  then have "inj_on f (set xs)" by (simp add: distinct_map)
  with assms(1,2,4) have "x = y" by (auto dest: inj_onD)
  with assms(3) show False by simp
qed

lemma var_name_moyai: "var_name_of ''moyai'' = ''EMOJI_BMP_MOYAI''"
  by (simp add: var_name_of_def upper_def upper_char_def)

lemma var_name_moai: "var_name_of ''moai'' = ''EMOJI_BMP_MOAI''"
  by (simp add: var_name_of_def upper_def upper_char_def)

section \<open>Uniqueness in the configured set\<close>

text \<open>
  Claim C3 says that identifiers (numeric symbol codes) and names are pairwise unique
  across the configuration, so that the artifact has exactly one entry for every
  identifier. The configured set declares the code \<open>0x1F5FF\<close> twice, as \<open>moyai\<close>
  under \<open>TRAVEL\<close> and as \<open>moai\<close> under \<open>OBJECTS\<close>: the codes are not pairwise
  unique, and the table of a completed run has two entries carrying this code.
\<close>

theorem codepoint_declared_twice_counterexample:
  "(0x1F5FF, ''moyai'') \<in> set (concat (map snd EMOJI_DATA))
   \<and> (0x1F5FF, ''moai'') \<in> set (concat (map snd EMOJI_DATA))
   \<and> \<not> distinct (map fst (concat (map snd EMOJI_DATA)))
   \<and> map_sum id
        (\<lambda>s. (0x1F5FF, ''moyai'', ''EMOJI_BMP_MOYAI'', ''TRAVEL'') \<in> set (all_entries s)
              \<and> (0x1F5FF, ''moai'', ''EMOJI_BMP_MOAI'', ''OBJECTS'') \<in> set (all_entries s))
        (main (\<lambda>h u. URLError) (\<lambda>png sz. None) EMOJI_DATA Map.empty)
     = Inr True"
proof (intro conjI)
  show a: "(0x1F5FF, ''moyai'') \<in> set (concat (map snd EMOJI_DATA))"
    using moyai_declared by (simp add: EMOJI_DATA_items)
  show b: "(0x1F5FF, ''moai'') \<in> set (concat (map snd EMOJI_DATA))"
    using moai_declared by (simp add: EMOJI_DATA_items)
  have ne: "(0x1F5FF::int, ''moyai'') \<noteq> (0x1F5FF, ''moai'')" by simp
  have fst: "fst (0x1F5FF::int, ''moyai'') = fst (0x1F5FF::int, ''moai'')" by simp
  show "\<not> distinct (map fst (concat (map snd EMOJI_DATA)))"
    by (rule same_key_not_distinct [OF a b ne fst])
  have travel: "(''TRAVEL'', EMOJI_DATA_TRAVEL) \<in> set EMOJI_DATA"
    by (simp add: EMOJI_DATA_def)
  have objects: "(''OBJECTS'', EMOJI_DATA_OBJECTS) \<in> set EMOJI_DATA"
    by (simp add: EMOJI_DATA_def)
  have "never_raises (\<lambda>h u. URLError)" by (simp add: never_raises_def)
  from main_never_raises [OF this, of "\<lambda>png sz. None" EMOJI_DATA Map.empty] obtain final
    where m: "main (\<lambda>h u. URLError) (\<lambda>png sz. None) EMOJI_DATA Map.empty = Inr final"
    by blast
  have e: "all_entries final = declared_entries EMOJI_DATA"
    using m by (rule main_entries)
  have 1: "(0x1F5FF, ''moyai'', ''EMOJI_BMP_MOYAI'', ''TRAVEL'') \<in> set (all_entries final)"
    using declared_entry_mem [OF travel moyai_declared]
    by (simp only: e var_name_moyai)
  have 2: "(0x1F5FF, ''moai'', ''EMOJI_BMP_MOAI'', ''OBJECTS'') \<in> set (all_entries final)"
    using declared_entry_mem [OF objects moai_declared]
    by (simp only: e var_name_moai)
  show "map_sum id
        (\<lambda>s. (0x1F5FF, ''moyai'', ''EMOJI_BMP_MOYAI'', ''TRAVEL'') \<in> set (all_entries s)
              \<and> (0x1F5FF, ''moai'', ''EMOJI_BMP_MOAI'', ''OBJECTS'') \<in> set (all_entries s))
        (main (\<lambda>h u. URLError) (\<lambda>png sz. None) EMOJI_DATA Map.empty)
     = Inr True"
    by (simp only: m map_sum.simps 1 2 simp_thms)
qed

text \<open>
  Claim C3, amended. The names are pairwise unique across the whole configuration (the
  numeric symbol codes are not), and for every configured record the table of a completed
  run contains exactly one entry carrying that record's code and name; the names are
  pairwise distinct across the table, which has one entry per configured record.
\<close>

theorem names_unique_one_entry_per_record:
  "distinct (map snd (concat (map snd EMOJI_DATA)))
   \<and> (main net raster EMOJI_DATA cache0 = Inr final \<longrightarrow>
        (\<forall>(codepoint, shortcode) \<in> set (concat (map snd EMOJI_DATA)).
           length (filter (\<lambda>(c, n, v, k). c = codepoint \<and> n = shortcode)
                     (all_entries final)) = 1)
        \<and> distinct (map (\<lambda>(codepoint, shortcode, var_name, category). shortcode)
                      (all_entries final))
        \<and> length (all_entries final) = length (concat (map snd EMOJI_DATA)))"
proof (intro conjI impI)
  show "distinct (map snd (concat (map snd EMOJI_DATA)))"
    by (rule names_distinct)
next
  assume m: "main net raster EMOJI_DATA cache0 = Inr final"
  have e: "all_entries final = declared_entries EMOJI_DATA"
    using m by (rule main_entries)
  show "\<forall>(codepoint, shortcode) \<in> set (concat (map snd EMOJI_DATA)).
           length (filter (\<lambda>(c, n, v, k). c = codepoint \<and> n = shortcode)
                     (all_entries final)) = 1"
    using one_entry_per_record [OF names_distinct]
    by (auto simp only: e)
  show "distinct (map (\<lambda>(codepoint, shortcode, var_name, category). shortcode)
                      (all_entries final))"
    by (simp only: e declared_entries_names names_distinct)
  have "length (all_entries final)
          = length (map (\<lambda>(codepoint, shortcode, var_name, category). (codepoint, shortcode))
                      (declared_entries EMOJI_DATA))"
    by (simp only: e length_map)
  then show "length (all_entries final) = length (concat (map snd EMOJI_DATA))"
    by (simp only: declared_entries_ids)
qed

theorem names_unique_one_entry_per_record_witness:
  "map_sum id
     (\<lambda>s. length (filter (\<lambda>(c, n, v, k). c = 0x1F600 \<and> n = ''grin'') (all_entries s)))
     (main (\<lambda>h u. URLError) (\<lambda>png sz. None) EMOJI_DATA Map.empty)
   = Inr 1"
proof -
  have "never_raises (\<lambda>h u. URLError)" by (simp add: never_raises_def)
  from main_never_raises [OF this, of "\<lambda>png sz. None" EMOJI_DATA Map.empty] obtain final
    where m: "main (\<lambda>h u. URLError) (\<lambda>png sz. None) EMOJI_DATA Map.empty = Inr final"
    by blast
  from names_unique_one_entry_per_record
         [of "\<lambda>h u. URLError" "\<lambda>png sz. None" Map.empty final] m
  have "\<forall>(codepoint, shortcode) \<in> set (concat (map snd EMOJI_DATA)).
        length (filter (\<lambda>(c, n, v, k). c = codepoint \<and> n = shortcode) (all_entries final)) = 1"
    by blast
  from bspec [OF this grin_declared]
  have "length (filter (\<lambda>(c, n, v, k). c = 0x1F600 \<and> n = ''grin'') (all_entries final)) = 1"
    by simp
  with m show ?thesis by simp
qed

end
